theory Spec2Isabelle
  imports Complex_Main
begin

section \<open>Numbers and strings of the page scripts\<close>

text \<open>
  The scripts compute on JavaScript numbers. The model takes the finite numbers as exact reals
  (\<^typ>\<open>real\<close>): every finite double is one. The rounding of IEEE arithmetic,
  \<open>NaN\<close> and the infinities are outside the model, with one exception: the value
  \<open>-Infinity\<close> that \<open>Math.max\<close> starts from is the \<open>None\<close> of \<open>math_max\<close> below.
\<close>

text \<open>\<open>Math.floor\<close> and \<open>Math.round\<close> (halves go up, towards \<open>+Infinity\<close>).\<close>

definition math_floor :: "real \<Rightarrow> int" where
  "math_floor x = \<lfloor>x\<rfloor>"

definition math_round :: "real \<Rightarrow> int" where
  "math_round x = \<lfloor>x + 1 / 2\<rfloor>"

text \<open>
  \<open>Math.max(a1, ..., an)\<close> as ECMAScript defines it: the running maximum starts at
  \<open>-Infinity\<close> (here \<open>None\<close>) and each argument greater than it replaces it.
\<close>

fun max_step :: "real option \<Rightarrow> real \<Rightarrow> real option" where
  "max_step None x = Some x"
| "max_step (Some h) x = Some (if x > h then x else h)"

definition math_max :: "real list \<Rightarrow> real option" where
  "math_max args = foldl max_step None args"

text \<open>\<open>Math.min\<close>, the mirror image, starting at \<open>+Infinity\<close>.\<close>

fun min_step :: "real option \<Rightarrow> real \<Rightarrow> real option" where
  "min_step None x = Some x"
| "min_step (Some l) x = Some (if x < l then x else l)"

definition math_min :: "real list \<Rightarrow> real option" where
  "math_min args = foldl min_step None args"

text \<open>The decimal rendering of an integer-valued number (\<open>Number.prototype.toString\<close>).\<close>

definition digit_char :: "nat \<Rightarrow> char" where
  "digit_char d = ''0123456789'' ! (d mod 10)"

fun digits :: "nat \<Rightarrow> string" where
  "digits n = (if n < 10 then [digit_char n] else digits (n div 10) @ [digit_char (n mod 10)])"

declare digits.simps [simp del]

definition int_toString :: "int \<Rightarrow> string" where
  "int_toString i = (if i < 0 then CHR ''-'' # digits (nat (- i)) else digits (nat i))"

text \<open>\<open>String.prototype.padStart\<close> with a one-character filler.\<close>

definition padStart :: "nat \<Rightarrow> char \<Rightarrow> string \<Rightarrow> string" where
  "padStart n c s = replicate (n - length s) c @ s"

section \<open>running.js: the pace formatter\<close>

text \<open>
  \<^verbatim>\<open>
  function formatPace(decimalMinutes) {
      const mins = Math.floor(decimalMinutes);
      const secs = Math.round((decimalMinutes - mins) * 60);
      return `${mins}:${secs.toString().padStart(2, '0')}`;
  }
  \<close>
\<close>

definition formatPace :: "real \<Rightarrow> string" where
  "formatPace decimalMinutes =
     (let mins = math_floor decimalMinutes;
          secs = math_round ((decimalMinutes - of_int mins) * 60)
      in int_toString mins @ '':'' @ padStart 2 (CHR ''0'') (int_toString secs))"


section \<open>The page: document, theme and visibility triggers\<close>

text \<open>A fault thrown by the script (\<open>TypeError\<close> on a property of \<open>null\<close> or \<open>undefined\<close>).\<close>

datatype fault = TypeError

text \<open>
  Text built by a template literal is kept as its pieces, the interpolated numbers
  unrendered: \<open>`${day.active_minutes} min`\<close> is \<open>[Num m, Str '' min'']\<close>.
\<close>

datatype piece = Str string | Num real

text \<open>
  A row of a horizontal bar chart: the \<open>div.hbar-row\<close> with its label, its track and fill,
  and its value. \<open>target_width\<close> is the number \<open>N\<close> of \<open>--target-width: N%\<close>,
  \<open>transition_delay\<close> the seconds of \<open>transitionDelay\<close>, \<open>value_text\<close> the number
  shown (\<open>None\<close> for the empty string).
\<close>

record hbar_row =
  row_class :: string
  label_class :: string
  label_text :: string
  label_title :: "string option"
  target_width :: real
  transition_delay :: real
  fill_background :: "string option"
  value_text :: "real option"

text \<open>
  A cell of the calendar grid: a blank \<open>div.calendar-cell.empty\<close>, or a day cell with its
  \<open>--intensity\<close> (set, with the class \<open>active\<close>, only on days with activity), its tooltip
  and the day of the month it shows (\<open>None\<close> for \<open>NaN\<close>).
\<close>

datatype calendar_cell =
  Empty_cell
| Day_cell (intensity: "real option") (data_tooltip: "piece list") (cell_text: "nat option")

record month_block =
  month_title :: string
  weekday_labels :: "string list"
  grid :: "calendar_cell list"

text \<open>
  A marker of a regional map: the two concentric circles at the projected point, the
  tooltip shown on hover, and the index of the card a click scrolls to (\<open>-1\<close> when
  \<open>indexOf\<close> does not find the entry).
\<close>

record region_marker =
  cx :: real
  cy :: real
  glow_fill :: string
  dot_fill :: string
  tip :: "piece list"
  card_index :: int

text \<open>
  The \<open>svg\<close> of a regional map: its size, the two corner points the projection was
  fitted to (\<open>[lng, lat]\<close> each), the ocean fill, whether the land layer was drawn, and
  the markers.
\<close>

record region_svg =
  svg_width :: real
  svg_height :: real
  fit_extent :: "(real \<times> real) \<times> (real \<times> real)"
  ocean_fill :: string
  land_drawn :: bool
  region_markers :: "region_marker list"

text \<open>The children a renderer appends to its container.\<close>

datatype child =
  Hbar hbar_row
| Calendar_month month_block
| Region_svg region_svg
| Region_tooltip (tooltip_background: string) (tooltip_color: string)
| Other string

text \<open>An element of the page: its children and the sizes the scripts read.\<close>

record element =
  children :: "child list"
  rect_width :: real
  rect_height :: real
  clientWidth :: real
  clientHeight :: real

text \<open>
  What the callback of a visibility trigger does on the first intersection: it adds a
  class to the observed container, or it starts the goal tracker's animation: the width of
  \<open>#goal-fill\<close> and the left offset of \<open>#goal-runner\<close> (both the number \<open>N\<close> of
  \<open>N%\<close>) and one counter for each counter element found on the page.
\<close>

record goal_counter =
  counter_el :: string
  counter_target :: real
  counter_decimals :: nat
  counter_isPct :: bool

datatype callback =
  Add_class string
| Goal_animation (fill_width: real) (runner_left: real) (counters: "goal_counter list")

text \<open>
  A one-shot visibility trigger (\<open>IntersectionObserver\<close>): the selector of the observed
  element, the threshold, and the callback.
\<close>

record observer =
  target :: string
  threshold :: real
  on_intersect :: callback

text \<open>
  The page: the elements a selector finds (\<open>#id\<close> for \<open>getElementById\<close>), the
  \<open>data-theme\<close> attribute of the root, and the armed triggers.
\<close>

record page =
  document :: "string \<rightharpoonup> element"
  data_theme :: "string option"
  observers :: "observer list"

definition getElementById :: "'a page_scheme \<Rightarrow> string \<Rightarrow> element option" where
  "getElementById pg i = document pg (CHR ''#'' # i)"

definition querySelector :: "'a page_scheme \<Rightarrow> string \<Rightarrow> element option" where
  "querySelector pg sel = document pg sel"

text \<open>\<open>container.innerHTML = ''\<close> followed by the \<open>appendChild\<close> calls of the loop.\<close>

definition set_children :: "string \<Rightarrow> child list \<Rightarrow> 'a page_scheme \<Rightarrow> 'a page_scheme" where
  "set_children i cs pg =
     (case getElementById pg i of
        None \<Rightarrow> pg
      | Some el \<Rightarrow> pg\<lparr>document := (document pg)(CHR ''#'' # i \<mapsto> el\<lparr>children := cs\<rparr>)\<rparr>)"

definition observe :: "string \<Rightarrow> real \<Rightarrow> callback \<Rightarrow> 'a page_scheme \<Rightarrow> 'a page_scheme" where
  "observe sel th cb pg =
     pg\<lparr>observers := observers pg @ [\<lparr>target = sel, threshold = th, on_intersect = cb\<rparr>]\<rparr>"

text \<open>
  \<open>value / bound\<close> where the bound comes from \<open>Math.max\<close>: a finite number over
  \<open>-Infinity\<close> is zero.
\<close>

definition div_num :: "real \<Rightarrow> real option \<Rightarrow> real" where
  "div_num x bound = (case bound of None \<Rightarrow> 0 | Some b \<Rightarrow> x / b)"

section \<open>running.js: weekly mileage bars\<close>

record weekly =
  week :: string
  miles :: real

text \<open>
  \<^verbatim>\<open>
  function renderBarChart(weeklyMileage) {
      const container = document.getElementById('bar-chart');
      container.innerHTML = '';
      const maxMiles = Math.max(...weeklyMileage.map((w) => w.miles), 1);
      weeklyMileage.forEach((week, i) => {
          ...
          fill.style.setProperty('--target-width', `${(week.miles / maxMiles) * 100}%`);
          fill.style.transitionDelay = `${i * 0.1}s`;
          ...
          value.textContent = week.miles > 0 ? week.miles : '';
          ...
          container.appendChild(row);
      });
      const observer = new IntersectionObserver(..., { threshold: 0.2 });
      observer.observe(container);
  }
  \<close>
  The container is not checked: on a page without \<open>#bar-chart\<close> the assignment to
  \<open>container.innerHTML\<close> throws.
\<close>

definition maxMiles :: "weekly list \<Rightarrow> real option" where
  "maxMiles weeklyMileage = math_max (map miles weeklyMileage @ [1])"

definition bar_row :: "real option \<Rightarrow> nat \<times> weekly \<Rightarrow> hbar_row" where
  "bar_row bound iw =
     (case iw of (i, wk) \<Rightarrow>
       \<lparr>row_class = ''hbar-row'',
        label_class = ''hbar-label mono'',
        label_text = week wk,
        label_title = None,
        target_width = div_num (miles wk) bound * 100,
        transition_delay = real i * (1 / 10),
        fill_background = None,
        value_text = (if miles wk > 0 then Some (miles wk) else None)\<rparr>)"

definition renderBarChart :: "weekly list \<Rightarrow> 'a page_scheme \<Rightarrow> fault + 'a page_scheme" where
  "renderBarChart weeklyMileage pg =
     (case getElementById pg ''bar-chart'' of
        None \<Rightarrow> Inl TypeError
      | Some container \<Rightarrow>
          Inr (observe ''#bar-chart'' (2 / 10) (Add_class ''animate'')
                (set_children ''bar-chart''
                   (map (Hbar \<circ> bar_row (maxMiles weeklyMileage)) (enumerate 0 weeklyMileage)) pg)))"

section \<open>The venue page script: category colours\<close>

text \<open>
  \<^verbatim>\<open>
  const CATEGORY_COLORS = { dark: { brewery: '#00d4ff', ... }, light: { brewery: '#0088cc', ... } };
  function getCategoryColor(category) {
      const mode = root.getAttribute('data-theme') === 'light' ? 'light' : 'dark';
      return CATEGORY_COLORS[mode][category] || CATEGORY_COLORS[mode].other;
  }
  \<close>
  The tables are association lists; a category that is not a key (\<open>undefined\<close>, falsy)
  falls back to the entry \<open>other\<close>. Keys inherited from \<open>Object.prototype\<close> are not
  modelled.
\<close>

definition CATEGORY_COLORS :: "string \<Rightarrow> (string \<times> string) list" where
  "CATEGORY_COLORS mode =
     (if mode = ''light''
      then [(''brewery'', ''#0088cc''), (''bar'', ''#00994d''), (''winery'', ''#d45a2a''),
            (''distillery'', ''#7c3aed''), (''cidery'', ''#d97706''), (''other'', ''#555566'')]
      else [(''brewery'', ''#00d4ff''), (''bar'', ''#00ff88''), (''winery'', ''#ff6b35''),
            (''distillery'', ''#a855f7''), (''cidery'', ''#f59e0b''), (''other'', ''#888888'')])"

definition getCategoryColor :: "'a page_scheme \<Rightarrow> string \<Rightarrow> string option" where
  "getCategoryColor pg category =
     (let mode = (if data_theme pg = Some ''light'' then ''light'' else ''dark'')
      in case map_of (CATEGORY_COLORS mode) category of
           Some c \<Rightarrow> Some c
         | None \<Rightarrow> map_of (CATEGORY_COLORS mode) ''other'')"

text \<open>
  \<^verbatim>\<open>
  function getTileUrl() {
      const isDark = root.getAttribute('data-theme') !== 'light';
      return isDark ? '.../dark_all/{z}/{x}/{y}{r}.png' : '.../light_all/{z}/{x}/{y}{r}.png';
  }
  \<close>
\<close>

definition isDark :: "'a page_scheme \<Rightarrow> bool" where
  "isDark pg = (data_theme pg \<noteq> Some ''light'')"

definition getTileUrl :: "'a page_scheme \<Rightarrow> string" where
  "getTileUrl pg =
     (if isDark pg
      then ''https://{s}.basemaps.cartocdn.com/dark_all/{z}/{x}/{y}{r}.png''
      else ''https://{s}.basemaps.cartocdn.com/light_all/{z}/{x}/{y}{r}.png'')"

section \<open>The venue page script: category bars and leaderboards\<close>

text \<open>An entry of \<open>summary.category_breakdown\<close>: \<open>{category, count}\<close>.\<close>

record breakdown_item =
  item_category :: string
  item_count :: real

text \<open>
  A venue of \<open>all_venues\<close>, \<open>top_by_visits\<close> and \<open>top_by_hours\<close>. A coordinate that the
  record lacks (\<open>undefined\<close> or \<open>null\<close>) is \<open>None\<close>.
\<close>

record venue =
  name :: string
  category :: string
  lat :: "real option"
  lng :: "real option"
  visit_count :: real
  total_hours :: real

text \<open>
  \<^verbatim>\<open>
  function renderCategoryBars(breakdown) {
      const container = document.getElementById('category-bars');
      if (!container) return;
      container.innerHTML = '';
      const maxCount = Math.max(...breakdown.map((b) => b.count), 1);
      breakdown.forEach((item, i) => {
          ... row.className = 'hbar-row venue-hbar-row'; label.className = 'hbar-label';
          fill.style.setProperty('--target-width', `${(item.count / maxCount) * 100}%`);
          fill.style.transitionDelay = `${i * 0.1}s`;
          fill.style.background = getCategoryColor(item.category);
          value.textContent = item.count;
          ...
      });
      ... observer.observe(container);   // threshold 0.2, adds the class 'animate'
  }
  \<close>
\<close>

definition maxCount :: "breakdown_item list \<Rightarrow> real option" where
  "maxCount breakdown = math_max (map item_count breakdown @ [1])"

definition category_row :: "'a page_scheme \<Rightarrow> real option \<Rightarrow> nat \<times> breakdown_item \<Rightarrow> hbar_row" where
  "category_row pg bound ii =
     (case ii of (i, item) \<Rightarrow>
       \<lparr>row_class = ''hbar-row venue-hbar-row'',
        label_class = ''hbar-label'',
        label_text = item_category item,
        label_title = None,
        target_width = div_num (item_count item) bound * 100,
        transition_delay = real i * (1 / 10),
        fill_background = getCategoryColor pg (item_category item),
        value_text = Some (item_count item)\<rparr>)"

definition renderCategoryBars :: "breakdown_item list \<Rightarrow> 'a page_scheme \<Rightarrow> fault + 'a page_scheme" where
  "renderCategoryBars breakdown pg =
     (case getElementById pg ''category-bars'' of
        None \<Rightarrow> Inr pg
      | Some container \<Rightarrow>
          Inr (observe ''#category-bars'' (2 / 10) (Add_class ''animate'')
                (set_children ''category-bars''
                   (map (Hbar \<circ> category_row pg (maxCount breakdown)) (enumerate 0 breakdown)) pg)))"

text \<open>
  \<^verbatim>\<open>
  function renderLeaderboard(containerId, items, valueKey, unitLabel) {
      const container = document.getElementById(containerId);
      if (!container) return;
      container.innerHTML = '';
      const top = items.slice(0, 10);
      const maxVal = Math.max(...top.map((v) => v[valueKey]), 1);
      top.forEach((venue, i) => {
          ... row.className = 'hbar-row venue-hbar-row';
          label.className = 'hbar-label venue-hbar-label';
          label.textContent = venue.name; label.title = venue.name;
          fill.style.setProperty('--target-width', `${(venue[valueKey] / maxVal) * 100}%`);
          fill.style.transitionDelay = `${i * 0.08}s`;
          fill.style.background = getCategoryColor(venue.category);
          value.textContent = venue[valueKey];
          ...
      });
      ... observer.observe(container);   // threshold 0.2, adds the class 'animate'
  }
  \<close>
  The script calls it with the keys \<open>'visit_count'\<close> and \<open>'total_hours'\<close>; \<open>unitLabel\<close> is
  not used by the body.
\<close>

datatype value_key = Visit_count | Total_hours

fun value_at :: "value_key \<Rightarrow> venue \<Rightarrow> real" where
  "value_at Visit_count v = visit_count v"
| "value_at Total_hours v = total_hours v"

definition top :: "venue list \<Rightarrow> venue list" where
  "top items = take 10 items"

definition maxVal :: "value_key \<Rightarrow> venue list \<Rightarrow> real option" where
  "maxVal valueKey items = math_max (map (value_at valueKey) (top items) @ [1])"

definition leaderboard_row :: "'a page_scheme \<Rightarrow> value_key \<Rightarrow> real option \<Rightarrow> nat \<times> venue \<Rightarrow> hbar_row" where
  "leaderboard_row pg valueKey bound iv =
     (case iv of (i, v) \<Rightarrow>
       \<lparr>row_class = ''hbar-row venue-hbar-row'',
        label_class = ''hbar-label venue-hbar-label'',
        label_text = name v,
        label_title = Some (name v),
        target_width = div_num (value_at valueKey v) bound * 100,
        transition_delay = real i * (8 / 100),
        fill_background = getCategoryColor pg (category v),
        value_text = Some (value_at valueKey v)\<rparr>)"

definition renderLeaderboard ::
  "string \<Rightarrow> venue list \<Rightarrow> value_key \<Rightarrow> string \<Rightarrow> 'a page_scheme \<Rightarrow> fault + 'a page_scheme" where
  "renderLeaderboard containerId items valueKey unitLabel pg =
     (case getElementById pg containerId of
        None \<Rightarrow> Inr pg
      | Some container \<Rightarrow>
          Inr (observe (CHR ''#'' # containerId) (2 / 10) (Add_class ''animate'')
                (set_children containerId
                   (map (Hbar \<circ> leaderboard_row pg valueKey (maxVal valueKey items))
                        (enumerate 0 (top items))) pg)))"

section \<open>The venue page script: the venue map\<close>

text \<open>
  A circle marker of the tile map with the options the script gives it, and the map:
  its tile source, its markers in the order they were added, and the bounds the viewport
  was fitted to (\<open>None\<close> when \<open>fitBounds\<close> was not called; the call's options are
  \<open>padding: [30, 30]\<close> and \<open>maxZoom: 13\<close>).
\<close>

record circle_marker =
  latlng :: "real \<times> real"
  radius :: real
  fillColor :: "string option"
  fillOpacity :: real
  stroke_color :: string
  weight :: real
  popup :: "piece list"

record leaflet_map =
  tile_url :: string
  markers :: "circle_marker list"
  fitted :: "(real \<times> real) list option"

record brew_data =
  category_breakdown :: "breakdown_item list"
  all_venues :: "venue list option"
  top_by_visits :: "venue list"
  top_by_hours :: "venue list"

text \<open>The page with the script's two variables, \<open>brewData\<close> and \<open>venueMapInstance\<close>.\<close>

record venue_page = page +
  brewData :: "brew_data option"
  venueMapInstance :: "leaflet_map option"

text \<open>
  \<open>!venue.lat\<close>: a coordinate is falsy when it is missing and also when it is the
  number \<open>0\<close>.
\<close>

fun truthy :: "real option \<Rightarrow> bool" where
  "truthy None = False"
| "truthy (Some x) = (x \<noteq> 0)"

text \<open>
  \<^verbatim>\<open>
  brewData.all_venues.forEach((venue) => {
      if (!venue.lat || !venue.lng) return;
      const color = getCategoryColor(venue.category);
      const radius = 6 + (venue.visit_count / maxVisits) * 14;
      const latlng = [venue.lat, venue.lng];
      bounds.push(latlng);
      const circle = L.circleMarker(latlng, { radius: radius, fillColor: color,
          fillOpacity: isDark ? 0.7 : 0.6,
          color: isDark ? 'rgba(255,255,255,0.3)' : 'rgba(0,0,0,0.2)', weight: 1.5 }).addTo(map);
      const popupContent = `<div class="venue-popup"> ... ${venue.name} ... ${venue.category}
          ... ${venue.visit_count} visits &middot; ${venue.total_hours} hrs ...`;
      circle.bindPopup(popupContent);
  });
  \<close>
  One turn of the loop, on the markers added so far and the array \<open>bounds\<close>. The popup
  keeps the interpolated fields and the text between them; the markup around them is
  left out.
\<close>

definition place_venue ::
  "venue_page \<Rightarrow> real option \<Rightarrow> circle_marker list \<times> (real \<times> real) list \<Rightarrow> venue
     \<Rightarrow> circle_marker list \<times> (real \<times> real) list" where
  "place_venue pg maxVisits st v =
     (case st of (ms, bounds) \<Rightarrow>
        if \<not> truthy (lat v) \<or> \<not> truthy (lng v) then (ms, bounds)
        else (case (lat v, lng v) of
                (Some la, Some lo) \<Rightarrow>
                  (ms @ [\<lparr>latlng = (la, lo),
                          radius = 6 + div_num (visit_count v) maxVisits * 14,
                          fillColor = getCategoryColor pg (category v),
                          fillOpacity = (if isDark pg then 7 / 10 else 6 / 10),
                          stroke_color = (if isDark pg then ''rgba(255,255,255,0.3)''
                                          else ''rgba(0,0,0,0.2)''),
                          weight = 15 / 10,
                          popup = [Str (name v), Str (category v),
                                   Num (visit_count v), Str '' visits &middot; '',
                                   Num (total_hours v), Str '' hrs'']\<rparr>],
                   bounds @ [(la, lo)])
              | _ \<Rightarrow> (ms, bounds)))"

text \<open>
  \<^verbatim>\<open>
  function renderVenueMap() {
      if (venueMapInstance) { venueMapInstance.remove(); venueMapInstance = null; }
      if (!brewData || !brewData.all_venues || brewData.all_venues.length === 0) return;
      const mapEl = document.getElementById('venue-map');
      if (!mapEl) return;
      const isDark = root.getAttribute('data-theme') !== 'light';
      const tileUrl = getTileUrl();
      const map = L.map(mapEl, {...});
      L.tileLayer(tileUrl, { subdomains: 'abcd', maxZoom: 19 }).addTo(map);
      const maxVisits = Math.max(...brewData.all_venues.map((v) => v.visit_count), 1);
      const bounds = [];
      brewData.all_venues.forEach(...);
      if (bounds.length > 0) { map.fitBounds(bounds, { padding: [30, 30], maxZoom: 13 }); }
      venueMapInstance = map;
  }
  \<close>
\<close>

definition maxVisits :: "venue list \<Rightarrow> real option" where
  "maxVisits venues = math_max (map visit_count venues @ [1])"

definition renderVenueMap :: "venue_page \<Rightarrow> fault + venue_page" where
  "renderVenueMap pg0 =
     (let pg = (case venueMapInstance pg0 of
                  Some m \<Rightarrow> pg0\<lparr>venueMapInstance := None\<rparr>
                | None \<Rightarrow> pg0)
      in case brewData pg of
           None \<Rightarrow> Inr pg
         | Some bd \<Rightarrow>
            (case all_venues bd of
               None \<Rightarrow> Inr pg
             | Some venues \<Rightarrow>
                 if length venues = 0 then Inr pg
                 else (case getElementById pg ''venue-map'' of
                         None \<Rightarrow> Inr pg
                       | Some mapEl \<Rightarrow>
                          (case foldl (place_venue pg (maxVisits venues)) ([], []) venues of
                             (ms, bounds) \<Rightarrow>
                               Inr (pg\<lparr>venueMapInstance :=
                                      Some \<lparr>tile_url = getTileUrl pg,
                                            markers = ms,
                                            fitted = (if length bounds > 0 then Some bounds
                                                      else None)\<rparr>\<rparr>)))))"

section \<open>running.js: the calendar heatmap\<close>

text \<open>
  The script builds \<open>new Date(day.date + 'T00:00:00')\<close> from the \<open>YYYY-MM-DD\<close> dates of
  the data and reads \<open>getDay()\<close> (0 for Sunday) and \<open>getDate()\<close> from it. The model of
  \<open>Date\<close> covers these strings: a calendar date followed by \<open>T00:00:00\<close>, read as local
  midnight of that day. Any other string, and a date that does not exist, is an invalid
  date (\<open>None\<close>), whose \<open>getDay()\<close> and \<open>getDate()\<close> are \<open>NaN\<close>.
\<close>

datatype date_value = Date_value (yr: int) (mon: nat) (dom: nat)

definition digit_value :: "char \<Rightarrow> nat option" where
  "digit_value c = map_of (zip ''0123456789'' [0, 1, 2, 3, 4, 5, 6, 7, 8, 9]) c"

fun parse_digits :: "nat \<Rightarrow> string \<Rightarrow> nat option" where
  "parse_digits acc [] = Some acc"
| "parse_digits acc (c # cs) =
     (case digit_value c of None \<Rightarrow> None | Some d \<Rightarrow> parse_digits (10 * acc + d) cs)"

definition leap_year :: "int \<Rightarrow> bool" where
  "leap_year y = (y mod 4 = 0 \<and> (y mod 100 \<noteq> 0 \<or> y mod 400 = 0))"

definition days_in_month :: "int \<Rightarrow> nat \<Rightarrow> nat" where
  "days_in_month y m =
     (if m = 2 then (if leap_year y then 29 else 28)
      else if m = 4 \<or> m = 6 \<or> m = 9 \<or> m = 11 then 30 else 31)"

definition new_Date :: "string \<Rightarrow> date_value option" where
  "new_Date s =
     (if length s = 19 \<and> s ! 4 = CHR ''-'' \<and> s ! 7 = CHR ''-'' \<and> drop 10 s = ''T00:00:00''
      then (case (parse_digits 0 (take 4 s), parse_digits 0 (take 2 (drop 5 s)),
                  parse_digits 0 (take 2 (drop 8 s))) of
              (Some y, Some m, Some d) \<Rightarrow>
                if 1 \<le> m \<and> m \<le> 12 \<and> 1 \<le> d \<and> d \<le> days_in_month (int y) m
                then Some (Date_value (int y) m d) else None
            | _ \<Rightarrow> None)
      else None)"

text \<open>The day of the week of a Gregorian date, 0 for Sunday to 6 for Saturday.\<close>

definition getDay :: "date_value \<Rightarrow> nat" where
  "getDay dt =
     (let y = (if mon dt < 3 then yr dt - 1 else yr dt);
          t = [0, 3, 2, 5, 0, 3, 5, 1, 4, 6, 2, 4] ! (mon dt - 1)
      in nat ((y + y div 4 - y div 100 + y div 400 + t + int (dom dt)) mod 7))"

definition getDate :: "date_value \<Rightarrow> nat" where
  "getDate dt = dom dt"

text \<open>\<open>Array.prototype.join\<close>.\<close>

fun join :: "'a list \<Rightarrow> 'a list list \<Rightarrow> 'a list" where
  "join sep [] = []"
| "join sep [x] = x"
| "join sep (x # y # zs) = x @ sep @ join sep (y # zs)"

record calendar_day =
  date :: string
  active_minutes :: real
  distance_mi :: real
  activities :: "string list option"

record calendar =
  month :: string
  days :: "calendar_day list"

text \<open>
  \<^verbatim>\<open>
  const firstDate = new Date(cal.days[0].date + 'T00:00:00');
  let dayOfWeek = firstDate.getDay(); // 0=Sun
  dayOfWeek = dayOfWeek === 0 ? 6 : dayOfWeek - 1; // convert to Mon=0
  for (let i = 0; i < dayOfWeek; i++) { ... grid.appendChild(empty); }
  \<close>
  The number of turns of the loop. On an invalid date \<open>dayOfWeek\<close> is \<open>NaN\<close>, the test
  \<open>i < dayOfWeek\<close> fails at once and no blank cell is added.
\<close>

definition dayOfWeek :: "calendar_day \<Rightarrow> nat" where
  "dayOfWeek first =
     (case new_Date (date first @ ''T00:00:00'') of
        None \<Rightarrow> 0
      | Some firstDate \<Rightarrow> (if getDay firstDate = 0 then 6 else getDay firstDate - 1))"

text \<open>
  \<^verbatim>\<open>
  if (day.activities && day.activities.length > 0) {
      const types = day.activities.join(', ');
      const parts = [types];
      if (day.distance_mi > 0) parts.push(`${day.distance_mi} mi`);
      parts.push(`${day.active_minutes} min`);
      tooltip = `${day.date}: ${parts.join(' \\u00b7 ')}`;
  } else {
      tooltip = `${day.date}: Rest day`;
  }
  \<close>
\<close>

definition tooltip :: "calendar_day \<Rightarrow> piece list" where
  "tooltip day =
     (let rest = [Str (date day), Str '': Rest day'']
      in case activities day of
           None \<Rightarrow> rest
         | Some acts \<Rightarrow>
             if length acts > 0
             then [Str (date day), Str '': ''] @
                  join [Str ([CHR '' '', CHR 0xB7, CHR '' ''])]
                    ([[Str (join '', '' acts)]] @
                     (if distance_mi day > 0 then [[Num (distance_mi day), Str '' mi'']] else []) @
                     [[Num (active_minutes day), Str '' min'']])
             else rest)"

text \<open>
  \<^verbatim>\<open>
  cal.days.forEach((day) => {
      const intensity = day.active_minutes / maxMin;
      if (day.active_minutes > 0) {
          cell.style.setProperty('--intensity', Math.max(0.2, intensity));
          cell.classList.add('active');
      }
      ...
      cell.setAttribute('data-tooltip', tooltip);
      cell.textContent = new Date(day.date + 'T00:00:00').getDate();
      grid.appendChild(cell);
  });
  \<close>
\<close>

definition day_cell :: "real option \<Rightarrow> calendar_day \<Rightarrow> calendar_cell" where
  "day_cell bound day =
     Day_cell (if active_minutes day > 0
               then Some (max (2 / 10) (div_num (active_minutes day) bound)) else None)
              (tooltip day)
              (map_option getDate (new_Date (date day @ ''T00:00:00'')))"

text \<open>
  One month block. \<open>cal.days[0]\<close> of a month without days is \<open>undefined\<close>, and reading
  its \<open>date\<close> throws.
\<close>

definition month_block_of :: "real option \<Rightarrow> calendar \<Rightarrow> fault + month_block" where
  "month_block_of bound cal =
     (case days cal of
        [] \<Rightarrow> Inl TypeError
      | first # rest \<Rightarrow>
          Inr \<lparr>month_title = month cal,
               weekday_labels = [''Mon'', ''Tue'', ''Wed'', ''Thu'', ''Fri'', ''Sat'', ''Sun''],
               grid = replicate (dayOfWeek first) Empty_cell @ map (day_cell bound) (days cal)\<rparr>)"

text \<open>\<open>calendars.forEach\<close>: the blocks in order, up to the first fault.\<close>

fun month_blocks :: "real option \<Rightarrow> calendar list \<Rightarrow> fault + month_block list" where
  "month_blocks bound [] = Inr []"
| "month_blocks bound (cal # cals) =
     (case month_block_of bound cal of
        Inl e \<Rightarrow> Inl e
      | Inr blk \<Rightarrow>
         (case month_blocks bound cals of
            Inl e \<Rightarrow> Inl e
          | Inr blks \<Rightarrow> Inr (blk # blks)))"

text \<open>
  \<^verbatim>\<open>
  function renderCalendars(calendars) {
      const container = document.getElementById('calendar-dual');
      container.innerHTML = '';
      const allDays = calendars.flatMap((c) => c.days);
      const maxMin = Math.max(...allDays.map((d) => d.active_minutes), 1);
      calendars.forEach((cal) => { ... container.appendChild(monthBlock); });
  }
  \<close>
  The container is not checked. A fault ends the script; the page it leaves behind is not
  tracked.
\<close>

definition maxMin :: "calendar list \<Rightarrow> real option" where
  "maxMin calendars = math_max (map active_minutes (concat (map days calendars)) @ [1])"

definition renderCalendars :: "calendar list \<Rightarrow> 'a page_scheme \<Rightarrow> fault + 'a page_scheme" where
  "renderCalendars calendars pg =
     (case getElementById pg ''calendar-dual'' of
        None \<Rightarrow> Inl TypeError
      | Some container \<Rightarrow>
         (case month_blocks (maxMin calendars) calendars of
            Inl e \<Rightarrow> Inl e
          | Inr blks \<Rightarrow> Inr (set_children ''calendar-dual'' (map Calendar_month blks) pg)))"

section \<open>running.js: the goal tracker\<close>

record summary =
  total_distance_mi :: real
  total_runs :: real
  avg_pace_min :: real
  total_time_hours :: real
  total_elevation_ft :: real

text \<open>
  \<^verbatim>\<open>
  function renderGoalTracker(summary) {
      const goal = 1000;
      const current = summary.total_distance_mi;
      const progress = Math.min(current / goal, 1);
      const remaining = Math.max(goal - current, 0);
      const pct = (progress * 100);
      const fill = document.getElementById('goal-fill');
      const runner = document.getElementById('goal-runner');
      const milesRunEl = document.getElementById('goal-miles-run');
      const milesLeftEl = document.getElementById('goal-miles-left');
      const pctEl = document.getElementById('goal-pct');
      if (!fill || !runner) return;
      const tracker = document.querySelector('.goal-tracker');
      const observer = new IntersectionObserver((entries) => {
              if (entries[0].isIntersecting) {
                  fill.style.width = `${pct}%`;
                  runner.style.left = `${pct}%`;
                  animateGoalCounter(milesRunEl, current, 1, false);
                  animateGoalCounter(milesLeftEl, remaining, 1, false);
                  animateGoalCounter(pctEl, pct, 1, true);
                  observer.unobserve(tracker);
              }
          }, { threshold: 0.2 });
      observer.observe(tracker);
  }
  \<close>
  \<open>animateGoalCounter\<close> returns at once on a missing element, so the callback starts a
  counter for each counter element that the page has. \<open>observer.observe(null)\<close> throws.
\<close>

definition goal :: real where
  "goal = 1000"

definition progress :: "summary \<Rightarrow> real" where
  "progress s = min (total_distance_mi s / goal) 1"

definition remaining :: "summary \<Rightarrow> real" where
  "remaining s = max (goal - total_distance_mi s) 0"

definition pct :: "summary \<Rightarrow> real" where
  "pct s = progress s * 100"

definition goal_counters :: "'a page_scheme \<Rightarrow> summary \<Rightarrow> goal_counter list" where
  "goal_counters pg s =
     filter (\<lambda>c. getElementById pg (counter_el c) \<noteq> None)
       [\<lparr>counter_el = ''goal-miles-run'', counter_target = total_distance_mi s,
          counter_decimals = 1, counter_isPct = False\<rparr>,
        \<lparr>counter_el = ''goal-miles-left'', counter_target = remaining s,
          counter_decimals = 1, counter_isPct = False\<rparr>,
        \<lparr>counter_el = ''goal-pct'', counter_target = pct s,
          counter_decimals = 1, counter_isPct = True\<rparr>]"

definition renderGoalTracker :: "summary \<Rightarrow> 'a page_scheme \<Rightarrow> fault + 'a page_scheme" where
  "renderGoalTracker s pg =
     (if getElementById pg ''goal-fill'' = None \<or> getElementById pg ''goal-runner'' = None
      then Inr pg
      else (case querySelector pg ''.goal-tracker'' of
              None \<Rightarrow> Inl TypeError
            | Some tracker \<Rightarrow>
                Inr (observe ''.goal-tracker'' (2 / 10)
                       (Goal_animation (pct s) (pct s) (goal_counters pg s)) pg)))"

text \<open>
  \<open>Number.prototype.toFixed\<close> for a number below \<open>10^21\<close>: the integer \<open>n\<close> with
  \<open>n / 10^f\<close> nearest to the absolute value (the larger one on a tie), written with the
  point before its last \<open>f\<close> digits, after a minus sign when the number is negative.
\<close>

definition toFixed_n :: "real \<Rightarrow> nat \<Rightarrow> nat" where
  "toFixed_n x f = nat \<lfloor>\<bar>x\<bar> * 10 ^ f + 1 / 2\<rfloor>"

definition toFixed :: "real \<Rightarrow> nat \<Rightarrow> string" where
  "toFixed x f =
     (let m = padStart (f + 1) (CHR ''0'') (digits (toFixed_n x f));
          k = length m;
          body = (if f = 0 then m else take (k - f) m @ ''.'' @ drop (k - f) m)
      in if x < 0 then CHR ''-'' # body else body)"

text \<open>
  \<^verbatim>\<open>
  function animateGoalCounter(el, target, decimals, isPct) {
      if (!el) return;
      const duration = 1200;
      const start = performance.now();
      function tick(now) {
          const elapsed = now - start;
          const progress = Math.min(elapsed / duration, 1);
          const ease = 1 - Math.pow(1 - progress, 3);
          const current = target * ease;
          if (isPct) { el.textContent = current.toFixed(decimals) + '%'; }
          else { el.textContent = current.toFixed(decimals); }
          if (progress < 1) requestAnimationFrame(tick);
      }
      requestAnimationFrame(tick);
  }
  \<close>
  One frame: the number \<open>current\<close> and the text that \<open>tick\<close> writes when \<open>now - start\<close> is
  \<open>elapsed\<close>.
\<close>

definition ease :: "real \<Rightarrow> real" where
  "ease elapsed = 1 - (1 - min (elapsed / 1200) 1) ^ 3"

definition frame_value :: "goal_counter \<Rightarrow> real \<Rightarrow> real" where
  "frame_value c elapsed = counter_target c * ease elapsed"

definition tick :: "goal_counter \<Rightarrow> real \<Rightarrow> string" where
  "tick c elapsed =
     (if counter_isPct c then toFixed (frame_value c elapsed) (counter_decimals c) @ ''%''
      else toFixed (frame_value c elapsed) (counter_decimals c))"

section \<open>running.js: the regional maps\<close>

text \<open>
  An entry of the featured routes, without its \<open>featured_run\<close> (the regional map does
  not read it); \<open>entry_total_runs\<close> is its \<open>total_runs\<close>. \<open>start_latlng\<close> is the pair
  \<open>[lat, lng]\<close> of the data; the renderer's check for a missing or short \<open>start_latlng\<close>
  therefore never fires.
\<close>

record featured_entry =
  city :: string
  continent :: string
  total_miles :: real
  entry_total_runs :: real
  start_latlng :: "real \<times> real"

text \<open>
  The page with the script's variables \<open>featuredData\<close> and \<open>worldTopoData\<close> (whether the
  topology has arrived; its content is not modelled).
\<close>

record running_page = page +
  featuredData :: "featured_entry list option"
  worldTopoData :: bool

text \<open>\<open>Array.prototype.indexOf\<close>, with equality of records for identity of objects.\<close>

fun indexOf :: "'a list \<Rightarrow> 'a \<Rightarrow> int" where
  "indexOf [] x = - 1"
| "indexOf (y # ys) x = (if y = x then 0 else (let i = indexOf ys x in if i < 0 then - 1 else i + 1))"

text \<open>
  \<^verbatim>\<open>
  const lngs = regionData.map((d) => d.start_latlng[1]);
  const lats = regionData.map((d) => d.start_latlng[0]);
  const padLng = Math.max((Math.max(...lngs) - Math.min(...lngs)) * 0.2, 4);
  const padLat = Math.max((Math.max(...lats) - Math.min(...lats)) * 0.2, 4);
  const regionBbox = { ... coordinates: [
      [Math.min(...lngs) - padLng, Math.min(...lats) - padLat],
      [Math.max(...lngs) + padLng, Math.max(...lats) + padLat] ] ... };
  \<close>
  The extrema of an empty array are infinite and the box is then outside the model
  (\<open>None\<close>); the renderer has returned before on empty \<open>regionData\<close>.
\<close>

definition lngs :: "featured_entry list \<Rightarrow> real list" where
  "lngs regionData = map (\<lambda>d. snd (start_latlng d)) regionData"

definition lats :: "featured_entry list \<Rightarrow> real list" where
  "lats regionData = map (\<lambda>d. fst (start_latlng d)) regionData"

definition pad :: "real list \<Rightarrow> real option" where
  "pad xs =
     (case (math_max xs, math_min xs) of
        (Some hi, Some lo) \<Rightarrow> Some (max ((hi - lo) * (2 / 10)) 4)
      | _ \<Rightarrow> None)"

definition regionBbox :: "featured_entry list \<Rightarrow> ((real \<times> real) \<times> (real \<times> real)) option" where
  "regionBbox regionData =
     (case (math_min (lngs regionData), math_max (lngs regionData), pad (lngs regionData),
            math_min (lats regionData), math_max (lats regionData), pad (lats regionData)) of
        (Some minLng, Some maxLng, Some padLng, Some minLat, Some maxLat, Some padLat) \<Rightarrow>
          Some ((minLng - padLng, minLat - padLat), (maxLng + padLng, maxLat + padLat))
      | _ \<Rightarrow> None)"

text \<open>
  \<^verbatim>\<open>
  regionData.forEach((entry) => {
      if (!entry.start_latlng || entry.start_latlng.length < 2) return;
      const globalIdx = featuredData.indexOf(entry);
      const coords = [entry.start_latlng[1], entry.start_latlng[0]];
      const projected = projection(coords);
      if (!projected) return;
      if (projected[0] < 0 || projected[0] > width || projected[1] < 0 || projected[1] > height) return;
      svg.append('circle') ... .attr('r', 10).attr('fill', glowColor) ...
      svg.append('circle') ... .attr('r', 5).attr('fill', markerColor) ...
          .on('mouseenter', () => { const runsLabel = entry.total_runs === 1 ? 'run' : 'runs';
              tooltip.html(`<strong>${entry.city}</strong> &middot; ${entry.total_miles} mi
                            &middot; ${entry.total_runs} ${runsLabel}`) ... })
          .on('click', () => { ... getElementById(`featured-card-${globalIdx}`) ... });
  });
  \<close>
  The markers of the entries that the fitted projection maps into the viewport.
\<close>

definition region_marker_of ::
  "bool \<Rightarrow> featured_entry list \<Rightarrow> (real \<times> real \<Rightarrow> (real \<times> real) option) \<Rightarrow> real \<Rightarrow> real
     \<Rightarrow> featured_entry \<Rightarrow> region_marker list" where
  "region_marker_of dark fd projection width height entry =
     (case projection (snd (start_latlng entry), fst (start_latlng entry)) of
        None \<Rightarrow> []
      | Some projected \<Rightarrow>
          if fst projected < 0 \<or> fst projected > width \<or> snd projected < 0 \<or> snd projected > height
          then []
          else [\<lparr>cx = fst projected, cy = snd projected,
                  glow_fill = (if dark then ''rgba(0, 212, 255, 0.3)'' else ''rgba(0, 136, 204, 0.3)''),
                  dot_fill = (if dark then ''#00d4ff'' else ''#0088cc''),
                  tip = [Str ''<strong>'', Str (city entry), Str ''</strong> &middot; '',
                         Num (total_miles entry), Str '' mi &middot; '',
                         Num (entry_total_runs entry), Str '' '',
                         Str (if entry_total_runs entry = 1 then ''run'' else ''runs'')],
                  card_index = indexOf fd entry\<rparr>])"

text \<open>
  \<^verbatim>\<open>
  function renderRegionMap(elementId, regionData) {
      const mapEl = document.getElementById(elementId);
      if (!mapEl) return;
      if (regionData.length === 0) return;
      mapEl.querySelectorAll('svg, .region-tooltip').forEach((el) => el.remove());
      const isDark = root.getAttribute('data-theme') !== 'light';
      const rect = mapEl.getBoundingClientRect();
      const width = rect.width || mapEl.clientWidth;
      const height = rect.height || mapEl.clientHeight;
      ... lngs, lats, padLng, padLat, regionBbox ...
      const projection = d3.geoMercator().fitSize([width, height], regionBbox);
      ... svg, ocean rect, graticule ...
      if (worldTopoData) { ... land ... }
      ... tooltip div ...
      regionData.forEach(...);
  }
  \<close>
  The projection that \<open>d3\<close> fits to a size and a box is a parameter, \<open>fitSize\<close>.
  \<open>featuredData.indexOf\<close> in the first turn of the loop throws when \<open>featuredData\<close> is
  still \<open>null\<close>.
\<close>

definition renderRegionMap ::
  "(real \<times> real \<Rightarrow> (real \<times> real) \<times> (real \<times> real) \<Rightarrow> real \<times> real \<Rightarrow> (real \<times> real) option)
     \<Rightarrow> string \<Rightarrow> featured_entry list \<Rightarrow> running_page \<Rightarrow> fault + running_page" where
  "renderRegionMap fitSize elementId regionData pg =
     (case getElementById pg elementId of
        None \<Rightarrow> Inr pg
      | Some mapEl \<Rightarrow>
          if length regionData = 0 then Inr pg
          else
            (let kept = filter (\<lambda>c. case c of Region_svg _ \<Rightarrow> False
                                        | Region_tooltip _ _ \<Rightarrow> False | _ \<Rightarrow> True)
                          (children mapEl);
                 width = (if rect_width mapEl \<noteq> 0 then rect_width mapEl else clientWidth mapEl);
                 height = (if rect_height mapEl \<noteq> 0 then rect_height mapEl else clientHeight mapEl)
             in case regionBbox regionData of
                  None \<Rightarrow> Inr pg
                | Some bbox \<Rightarrow>
                   (case featuredData pg of
                      None \<Rightarrow> Inl TypeError
                    | Some fd \<Rightarrow>
                        Inr (set_children elementId
                              (kept @
                               [Region_svg
                                  \<lparr>svg_width = width, svg_height = height, fit_extent = bbox,
                                   ocean_fill = (if isDark pg then ''#0d0d18'' else ''#e8ecf2''),
                                   land_drawn = worldTopoData pg,
                                   region_markers =
                                     concat (map (region_marker_of (isDark pg) fd
                                                    (fitSize (width, height) bbox) width height)
                                                 regionData)\<rparr>,
                                Region_tooltip
                                  (if isDark pg then ''rgba(18, 18, 26, 0.95)''
                                   else ''rgba(255, 255, 255, 0.95)'')
                                  (if isDark pg then ''#e0e0e0'' else ''#1a1a2e'')]) pg))))"

section \<open>Example data and auxiliary definitions\<close>

text \<open>An element with no children and no size, and a page that holds no element at all.\<close>

definition blank :: element where
  "blank = \<lparr>children = [], rect_width = 0, rect_height = 0, clientWidth = 0, clientHeight = 0\<rparr>"

definition empty_page :: page where
  "empty_page = \<lparr>document = Map.empty, data_theme = None, observers = []\<rparr>"

text \<open>A running page that has the bar chart's container, and a venue page's leaderboard.\<close>

definition bar_page :: page where
  "bar_page = \<lparr>document = [''#bar-chart'' \<mapsto> blank], data_theme = None, observers = []\<rparr>"

definition board_page :: page where
  "board_page = \<lparr>document = [''#leaderboard-visits'' \<mapsto> blank], data_theme = None, observers = []\<rparr>"

text \<open>
  Twenty-five venues in the caller's order, the \<open>n\<close>-th one named \<open>vn\<close> with \<open>n\<close> visits:
  the largest values are at the end, beyond the first ten.
\<close>

definition venue_numbered :: "nat \<Rightarrow> venue" where
  "venue_numbered n = \<lparr>name = CHR ''v'' # digits n, category = ''brewery'', lat = None, lng = None,
                        visit_count = real n, total_hours = 0\<rparr>"

definition twenty_five :: "venue list" where
  "twenty_five = map venue_numbered
     [1, 2, 3, 4, 5, 6, 7, 8, 9, 10, 11, 12, 13, 14, 15, 16, 17, 18, 19, 20, 21, 22, 23, 24, 25]"

text \<open>
  The block of a month that has days (the second branch of \<open>month_block_of\<close>), which the
  proofs below refer to.
\<close>

definition block_of :: "real option \<Rightarrow> calendar \<Rightarrow> month_block" where
  "block_of bound cal =
     \<lparr>month_title = month cal,
      weekday_labels = [''Mon'', ''Tue'', ''Wed'', ''Thu'', ''Fri'', ''Sat'', ''Sun''],
      grid = replicate (dayOfWeek (hd (days cal))) Empty_cell @ map (day_cell bound) (days cal)\<rparr>"

text \<open>
  A page with the calendar's container, and January 2025, which starts on a Wednesday,
  with a run on its first day.
\<close>

definition calendar_page :: page where
  "calendar_page = \<lparr>document = [''#calendar-dual'' \<mapsto> blank], data_theme = None, observers = []\<rparr>"

definition new_year :: calendar_day where
  "new_year = \<lparr>date = ''2025-01-01'', active_minutes = 30, distance_mi = 3,
                activities = Some [''Run'']\<rparr>"

definition january :: calendar where
  "january = \<lparr>month = ''January 2025'',
               days = [new_year,
                       \<lparr>date = ''2025-01-02'', active_minutes = 0, distance_mi = 0,
                         activities = Some []\<rparr>]\<rparr>"

text \<open>
  Three venues: one with coordinates, one on the equator (latitude 0) and one without
  coordinates; and a venue page with the map's container whose data holds given venues.
\<close>

definition denver :: venue where
  "denver = \<lparr>name = ''Mile High Taproom'', category = ''brewery'', lat = Some (397 / 10),
              lng = Some (- 105), visit_count = 4, total_hours = 6\<rparr>"

definition equator :: venue where
  "equator = \<lparr>name = ''Equator Brewing'', category = ''brewery'', lat = Some 0,
               lng = Some (368 / 10), visit_count = 2, total_hours = 3\<rparr>"

definition nowhere :: venue where
  "nowhere = \<lparr>name = ''Nowhere Bar'', category = ''bar'', lat = None, lng = None,
               visit_count = 3, total_hours = 5\<rparr>"

definition venue_page_with :: "venue list \<Rightarrow> venue_page" where
  "venue_page_with vs =
     \<lparr>document = [''#venue-map'' \<mapsto> blank], data_theme = None, observers = [],
      brewData = Some \<lparr>category_breakdown = [], all_venues = Some vs,
                       top_by_visits = [], top_by_hours = []\<rparr>,
      venueMapInstance = None\<rparr>"

text \<open>
  A summary beyond the goal (1500 miles), a page with the goal tracker's elements, and the
  counters for the percentage and the remaining miles that this summary gives.
\<close>

definition over_goal :: summary where
  "over_goal = \<lparr>total_distance_mi = 1500, total_runs = 200, avg_pace_min = 8,
                 total_time_hours = 200, total_elevation_ft = 50000\<rparr>"

definition goal_page :: page where
  "goal_page =
     \<lparr>document = [''#goal-fill'' \<mapsto> blank, ''#goal-runner'' \<mapsto> blank,
                  ''#goal-miles-run'' \<mapsto> blank, ''#goal-miles-left'' \<mapsto> blank,
                  ''#goal-pct'' \<mapsto> blank, ''.goal-tracker'' \<mapsto> blank],
      data_theme = None, observers = []\<rparr>"

definition pct_counter :: goal_counter where
  "pct_counter = \<lparr>counter_el = ''goal-pct'', counter_target = 100, counter_decimals = 1,
                   counter_isPct = True\<rparr>"

definition left_counter :: goal_counter where
  "left_counter = \<lparr>counter_el = ''goal-miles-left'', counter_target = 0, counter_decimals = 1,
                    counter_isPct = False\<rparr>"

text \<open>
  Two featured entries one degree of longitude apart, and a running page with the North
  America map's container (400 by 300) and these entries as its featured data.
\<close>

definition west :: featured_entry where
  "west = \<lparr>city = ''West'', continent = ''na'', total_miles = 120, entry_total_runs = 30,
            start_latlng = (397 / 10, - 105)\<rparr>"

definition east :: featured_entry where
  "east = \<lparr>city = ''East'', continent = ''na'', total_miles = 8, entry_total_runs = 1,
            start_latlng = (40, - 104)\<rparr>"

definition region_page :: running_page where
  "region_page =
     \<lparr>document = [''#featured-map-na'' \<mapsto> blank\<lparr>rect_width := 400, rect_height := 300\<rparr>],
      data_theme = None, observers = [],
      featuredData = Some [west, east], worldTopoData = False\<rparr>"

section \<open>The scale bound\<close>

lemma foldl_max_step: "foldl max_step (Some a) xs = Some (fold max xs a)"
  by (induction xs arbitrary: a) (auto simp: max_def)

lemma foldl_min_step: "foldl min_step (Some a) xs = Some (fold min xs a)"
  by (induction xs arbitrary: a) (auto simp: min_def)

lemma math_max_Cons: "math_max (x # xs) = Some (Max (set (x # xs)))"
  by (simp add: math_max_def foldl_max_step Max.set_eq_fold del: set_simps)

lemma math_min_Cons: "math_min (x # xs) = Some (Min (set (x # xs)))"
  by (simp add: math_min_def foldl_min_step Min.set_eq_fold del: set_simps)

lemma math_max_floor: "math_max (vs @ [1]) = Some (Max (insert 1 (set vs)))"
proof (cases vs)
  case Nil
  then show ?thesis by (simp add: math_max_def)
next
  case (Cons x xs)
  have "math_max (vs @ [1]) = Some (Max (set (x # (xs @ [1]))))"
    unfolding Cons append_Cons by (rule math_max_Cons)
  also have "set (x # (xs @ [1])) = insert 1 (set vs)"
    using Cons by auto
  finally show ?thesis .
qed






lemma maxMiles_eq: "maxMiles ws = Some (Max (insert 1 (miles ` set ws)))"
  by (simp add: maxMiles_def math_max_floor)

lemma maxVal_eq: "maxVal k items = Some (Max (insert 1 (value_at k ` set (take 10 items))))"
  by (simp add: maxVal_def top_def math_max_floor)

lemma maxCount_eq: "maxCount bs = Some (Max (insert 1 (item_count ` set bs)))"
  by (simp add: maxCount_def math_max_floor)

lemma maxVisits_eq: "maxVisits vs = Some (Max (insert 1 (visit_count ` set vs)))"
  by (simp add: maxVisits_def math_max_floor)

section \<open>The pace formatter\<close>

lemmas formatPace_eval =
  formatPace_def math_floor_def math_round_def int_toString_def padStart_def digits.simps
  digit_char_def Let_def

lemma formatPace_half: "formatPace 6.5 = ''6:30''"
  by (simp add: formatPace_eval)

lemma formatPace_zero: "formatPace 0.0 = ''0:00''"
  by (simp add: formatPace_eval)

text \<open>
  The seconds are the rounded fractional part times 60, between 0 and 60 inclusive: 60 is
  reached when the fraction is at least \<open>119/120\<close>, and nothing carries it into the minutes.
\<close>

lemma formatPace_secs_range:
  "0 \<le> math_round ((x - of_int (math_floor x)) * 60) \<and>
   math_round ((x - of_int (math_floor x)) * 60) \<le> 60"
proof -
  let ?f = "x - of_int (math_floor x)"
  have "0 \<le> ?f" and "?f < 1"
    unfolding math_floor_def by linarith+
  then have "0 \<le> ?f * 60 + 1 / 2" and "?f * 60 + 1 / 2 < 61"
    by simp_all
  then show ?thesis
    unfolding math_round_def by (simp add: le_floor_iff floor_le_iff)
qed

text \<open>
  C1. The formatter floors the minutes and rounds the remainder times 60, padded to two
  digits, and \<open>6.5\<close> and \<open>0.0\<close> come out as \<open>6:30\<close> and \<open>0:00\<close>. The rounding does not
  carry: at \<open>10.999\<close> the seconds round to 60 and the text is \<open>10:60\<close>, not \<open>11:00\<close>.
\<close>

theorem formatPace_seconds_not_carried: "formatPace 10.999 = ''10:60''"
  by (simp add: formatPace_eval)

section \<open>Missing containers\<close>

lemma renderCalendars_missing_container:
  "getElementById pg ''calendar-dual'' = None \<Longrightarrow> renderCalendars calendars pg = Inl TypeError"
  by (simp add: renderCalendars_def)

lemma renderBarChart_missing_container:
  "getElementById pg ''bar-chart'' = None \<Longrightarrow> renderBarChart weeklyMileage pg = Inl TypeError"
  by (simp add: renderBarChart_def)

lemma renderGoalTracker_missing_tracker:
  "getElementById pg ''goal-fill'' \<noteq> None \<Longrightarrow> getElementById pg ''goal-runner'' \<noteq> None \<Longrightarrow>
   querySelector pg ''.goal-tracker'' = None \<Longrightarrow> renderGoalTracker s pg = Inl TypeError"
  by (simp add: renderGoalTracker_def)

lemma renderCategoryBars_missing_container:
  "getElementById pg ''category-bars'' = None \<Longrightarrow> renderCategoryBars breakdown pg = Inr pg"
  by (simp add: renderCategoryBars_def)

lemma renderLeaderboard_missing_container:
  "getElementById pg containerId = None \<Longrightarrow>
   renderLeaderboard containerId items valueKey unitLabel pg = Inr pg"
  by (simp add: renderLeaderboard_def)

lemma renderRegionMap_missing_container:
  "getElementById pg elementId = None \<Longrightarrow> renderRegionMap fitSize elementId regionData pg = Inr pg"
  by (simp add: renderRegionMap_def)

text \<open>
  C2. Not every renderer returns quietly when its container is missing. The renderers of
  the venue page and the regional map test the container and return, but
  \<open>renderCalendars\<close> (as \<open>renderBarChart\<close>) assigns to \<open>container.innerHTML\<close> untested: on
  a page without \<open>#calendar-dual\<close> it throws a \<open>TypeError\<close>, whatever the data.
\<close>

theorem renderCalendars_faults_without_container:
  "renderCalendars [] empty_page = Inl TypeError"
  by (simp add: renderCalendars_def getElementById_def empty_page_def)

section \<open>Horizontal bars\<close>

lemma page_lookup_after:
  "getElementById pg i = Some el \<Longrightarrow>
   getElementById (observe sel th cb (set_children i cs pg)) i = Some (el\<lparr>children := cs\<rparr>)"
  by (simp add: getElementById_def observe_def set_children_def)

lemma div_num_le_one:
  assumes "v \<le> b" and "1 \<le> b"
  shows "div_num v (Some b) \<le> 1"
  using assms by (simp add: div_num_def)

lemma div_num_nonneg:
  assumes "0 \<le> v" and "1 \<le> b"
  shows "0 \<le> div_num v (Some b)"
  using assms by (simp add: div_num_def)

lemma div_num_mono:
  assumes "v \<le> w" and "1 \<le> b"
  shows "div_num v (Some b) \<le> div_num w (Some b)"
  using assms by (simp add: div_num_def divide_right_mono)

lemma bar_row_width: "target_width (bar_row bound (i, wk)) = div_num (miles wk) bound * 100"
  by (simp add: bar_row_def)

lemma bar_rows_nth:
  "i < length ws \<Longrightarrow> map (bar_row bound) (enumerate 0 ws) ! i = bar_row bound (i, ws ! i)"
  by (simp add: nth_enumerate_eq)

text \<open>
  C8 (amended). On a page with the bar chart's container, every row's fill proportion
  (its target width over 100) is the week's value over the bound, the bound being the
  batch maximum floored at 1. The proportion never exceeds 1 and is monotonic in the
  value. It is at least 0 when the value is not negative: the script applies no clamp.
\<close>

theorem bar_fill_proportion:
  assumes "getElementById pg ''bar-chart'' = Some el"
  shows "\<exists>pg' b rows.
           renderBarChart ws pg = Inr pg' \<and>
           maxMiles ws = Some b \<and> b = Max (insert 1 (miles ` set ws)) \<and>
           map_option children (getElementById pg' ''bar-chart'') = Some (map Hbar rows) \<and>
           length rows = length ws \<and>
           (\<forall>i < length ws.
              target_width (rows ! i) / 100 = miles (ws ! i) / b \<and>
              target_width (rows ! i) / 100 \<le> 1 \<and>
              (0 \<le> miles (ws ! i) \<longrightarrow> 0 \<le> target_width (rows ! i) / 100)) \<and>
           (\<forall>i < length ws. \<forall>j < length ws.
              miles (ws ! i) \<le> miles (ws ! j) \<longrightarrow>
              target_width (rows ! i) / 100 \<le> target_width (rows ! j) / 100)"
proof -
  let ?b = "Max (insert 1 (miles ` set ws))"
  let ?rows = "map (bar_row (Some ?b)) (enumerate 0 ws)"
  let ?pg' = "observe ''#bar-chart'' (2 / 10) (Add_class ''animate'')
                (set_children ''bar-chart'' (map Hbar ?rows) pg)"
  have b: "maxMiles ws = Some ?b" by (rule maxMiles_eq)
  have b1: "1 \<le> ?b" by (rule Max_ge) simp_all
  have bge: "\<And>i. i < length ws \<Longrightarrow> miles (ws ! i) \<le> ?b"
    by (rule Max_ge) simp_all
  have r: "renderBarChart ws pg = Inr ?pg'"
    using assms by (simp add: renderBarChart_def b)
  have c: "map_option children (getElementById ?pg' ''bar-chart'') = Some (map Hbar ?rows)"
    using page_lookup_after [OF assms] by simp
  have w: "\<And>i. i < length ws \<Longrightarrow> target_width (?rows ! i) / 100 = div_num (miles (ws ! i)) (Some ?b)"
    by (simp add: nth_enumerate_eq bar_row_width)
  have p1: "\<forall>i < length ws.
              target_width (?rows ! i) / 100 = miles (ws ! i) / ?b \<and>
              target_width (?rows ! i) / 100 \<le> 1 \<and>
              (0 \<le> miles (ws ! i) \<longrightarrow> 0 \<le> target_width (?rows ! i) / 100)"
  proof (intro allI impI conjI)
    fix i assume i: "i < length ws"
    show "target_width (?rows ! i) / 100 = miles (ws ! i) / ?b"
      using w [OF i] by (simp add: div_num_def)
    show "target_width (?rows ! i) / 100 \<le> 1"
      unfolding w [OF i] using bge [OF i] b1 by (rule div_num_le_one)
    show "0 \<le> target_width (?rows ! i) / 100" if "0 \<le> miles (ws ! i)"
      unfolding w [OF i] using that b1 by (rule div_num_nonneg)
  qed
  have p2: "\<forall>i < length ws. \<forall>j < length ws.
              miles (ws ! i) \<le> miles (ws ! j) \<longrightarrow>
              target_width (?rows ! i) / 100 \<le> target_width (?rows ! j) / 100"
  proof (intro allI impI)
    fix i j assume i: "i < length ws" and j: "j < length ws"
      and le: "miles (ws ! i) \<le> miles (ws ! j)"
    show "target_width (?rows ! i) / 100 \<le> target_width (?rows ! j) / 100"
      unfolding w [OF i] w [OF j] using le b1 by (rule div_num_mono)
  qed
  have l: "length ?rows = length ws" by simp
  from r b c l p1 p2 show ?thesis by blast
qed


lemma bar_page_has: "getElementById bar_page ''bar-chart'' = Some blank"
  by (simp add: getElementById_def bar_page_def)

theorem bar_fill_proportion_witness:
  "getElementById bar_page ''bar-chart'' = Some blank \<and>
   (\<exists>pg' b rows.
      renderBarChart [\<lparr>week = ''W1'', miles = 10\<rparr>, \<lparr>week = ''W2'', miles = 20\<rparr>] bar_page = Inr pg' \<and>
      maxMiles [\<lparr>week = ''W1'', miles = 10\<rparr>, \<lparr>week = ''W2'', miles = 20\<rparr>] = Some b \<and> b = 20 \<and>
      map_option children (getElementById pg' ''bar-chart'') = Some (map Hbar rows) \<and>
      length rows = 2 \<and>
      target_width (rows ! 0) / 100 = 1 / 2 \<and> target_width (rows ! 1) / 100 = 1)"
proof -
  let ?ws = "[\<lparr>week = ''W1'', miles = 10\<rparr>, \<lparr>week = ''W2'', miles = 20\<rparr>]"
  from bar_fill_proportion [OF bar_page_has, of ?ws]
  obtain pg' b rows where
    r: "renderBarChart ?ws bar_page = Inr pg'"
    and m: "maxMiles ?ws = Some b"
    and b: "b = Max (insert 1 (miles ` set ?ws))"
    and c: "map_option children (getElementById pg' ''bar-chart'') = Some (map Hbar rows)"
    and l: "length rows = length ?ws"
    and w: "\<forall>i < length ?ws.
              target_width (rows ! i) / 100 = miles (?ws ! i) / b \<and>
              target_width (rows ! i) / 100 \<le> 1 \<and>
              (0 \<le> miles (?ws ! i) \<longrightarrow> 0 \<le> target_width (rows ! i) / 100)"
    by blast
  have b': "b = 20" using b by simp
  have l': "length rows = 2" using l by simp
  have w0: "target_width (rows ! 0) / 100 = 1 / 2" using w b' by simp
  have w1: "target_width (rows ! 1) / 100 = 1" using w b' by simp
  show ?thesis
    by (intro conjI exI) (fact bar_page_has r m b' c l' w0 w1)+
qed

text \<open>
  C8 as it is written puts every proportion in \<open>[0, 1]\<close>. A week of \<open>-5\<close> miles gets
  the bound 1 and the target width \<open>-500%\<close>, a proportion of \<open>-5\<close>.
\<close>

theorem bar_fill_negative:
  "renderBarChart [\<lparr>week = ''W1'', miles = - 5\<rparr>] bar_page =
     Inr (bar_page
           \<lparr>document := [''#bar-chart'' \<mapsto> blank\<lparr>children :=
               [Hbar \<lparr>row_class = ''hbar-row'', label_class = ''hbar-label mono'',
                      label_text = ''W1'', label_title = None, target_width = - 500,
                      transition_delay = 0, fill_background = None, value_text = None\<rparr>]\<rparr>],
            observers := [\<lparr>target = ''#bar-chart'', threshold = 2 / 10,
                           on_intersect = Add_class ''animate''\<rparr>]\<rparr>)"
  by (simp add: renderBarChart_def bar_page_has maxMiles_def math_max_def bar_row_def div_num_def
      observe_def set_children_def enumerate_eq_zip) (simp add: bar_page_def getElementById_def)

lemma leaderboard_row_fields:
  "label_text (leaderboard_row pg k bound (i, v)) = name v"
  "value_text (leaderboard_row pg k bound (i, v)) = Some (value_at k v)"
  "target_width (leaderboard_row pg k bound (i, v)) = div_num (value_at k v) bound * 100"
  by (simp_all add: leaderboard_row_def)

lemma map_enumerate_snd:
  "(\<And>i x. g (f (i, x)) = h x) \<Longrightarrow> map g (map f (enumerate n xs)) = map h xs"
  by (induction xs arbitrary: n) simp_all

text \<open>
  C4. On a page with the leaderboard's container, the rows are the first ten records of
  the caller's sequence (all of them when there are fewer), in the caller's order, and
  the bound that scales them is the maximum over those records only, floored at 1.
\<close>

theorem leaderboard_top_ten:
  assumes "getElementById pg containerId = Some el"
  shows "\<exists>pg' b rows.
           renderLeaderboard containerId items valueKey unitLabel pg = Inr pg' \<and>
           map_option children (getElementById pg' containerId) = Some (map Hbar rows) \<and>
           length rows = min 10 (length items) \<and>
           map label_text rows = map name (take 10 items) \<and>
           map value_text rows = map (\<lambda>v. Some (value_at valueKey v)) (take 10 items) \<and>
           maxVal valueKey items = Some b \<and>
           b = Max (insert 1 (value_at valueKey ` set (take 10 items))) \<and>
           (\<forall>i < length rows. target_width (rows ! i) = value_at valueKey (items ! i) / b * 100)"
proof -
  let ?b = "Max (insert 1 (value_at valueKey ` set (take 10 items)))"
  let ?rows = "map (leaderboard_row pg valueKey (Some ?b)) (enumerate 0 (top items))"
  let ?pg' = "observe (CHR ''#'' # containerId) (2 / 10) (Add_class ''animate'')
                (set_children containerId (map Hbar ?rows) pg)"
  have b: "maxVal valueKey items = Some ?b" by (rule maxVal_eq)
  have r: "renderLeaderboard containerId items valueKey unitLabel pg = Inr ?pg'"
    using assms by (simp add: renderLeaderboard_def b)
  have c: "map_option children (getElementById ?pg' containerId) = Some (map Hbar ?rows)"
    using page_lookup_after [OF assms] by simp
  have l: "length ?rows = min 10 (length items)"
    by (simp add: top_def min.commute)
  have n: "map label_text ?rows = map name (take 10 items)"
    unfolding top_def by (rule map_enumerate_snd) (rule leaderboard_row_fields)
  have v: "map value_text ?rows = map (\<lambda>v. Some (value_at valueKey v)) (take 10 items)"
    unfolding top_def by (rule map_enumerate_snd) (rule leaderboard_row_fields)
  have w: "\<forall>i < length ?rows. target_width (?rows ! i) = value_at valueKey (items ! i) / ?b * 100"
    by (simp add: top_def nth_enumerate_eq leaderboard_row_fields div_num_def)
  from r c l n v b w show ?thesis by blast
qed




lemma board_page_has: "getElementById board_page ''leaderboard-visits'' = Some blank"
  by (simp add: getElementById_def board_page_def)

lemma twenty_five_length: "length twenty_five = 25"
  by (simp add: twenty_five_def)

lemma twenty_five_top: "take 10 twenty_five = map venue_numbered [1, 2, 3, 4, 5, 6, 7, 8, 9, 10]"
  by (simp add: twenty_five_def)

lemma twenty_five_bound: "Max (insert 1 (value_at Visit_count ` set (take 10 twenty_five))) = 10"
  unfolding twenty_five_top by (simp add: venue_numbered_def)

lemma twenty_five_max: "Max (value_at Visit_count ` set twenty_five) = 25"
  unfolding twenty_five_def by (simp add: venue_numbered_def)

theorem leaderboard_top_ten_witness:
  "length twenty_five = 25 \<and> Max (value_at Visit_count ` set twenty_five) = 25 \<and>
   (\<exists>pg' rows.
      renderLeaderboard ''leaderboard-visits'' twenty_five Visit_count ''visits'' board_page = Inr pg' \<and>
      map_option children (getElementById pg' ''leaderboard-visits'') = Some (map Hbar rows) \<and>
      length rows = 10 \<and>
      map label_text rows = [''v1'', ''v2'', ''v3'', ''v4'', ''v5'', ''v6'', ''v7'', ''v8'', ''v9'', ''v10''] \<and>
      maxVal Visit_count twenty_five = Some 10 \<and>
      target_width (rows ! 9) = 100)"
proof -
  from leaderboard_top_ten [OF board_page_has, of twenty_five Visit_count "''visits''"]
  obtain pg' b rows where
    r: "renderLeaderboard ''leaderboard-visits'' twenty_five Visit_count ''visits'' board_page = Inr pg'"
    and c: "map_option children (getElementById pg' ''leaderboard-visits'') = Some (map Hbar rows)"
    and l: "length rows = min 10 (length twenty_five)"
    and n: "map label_text rows = map name (take 10 twenty_five)"
    and m: "maxVal Visit_count twenty_five = Some b"
    and b: "b = Max (insert 1 (value_at Visit_count ` set (take 10 twenty_five)))"
    and w: "\<forall>i < length rows. target_width (rows ! i) = value_at Visit_count (twenty_five ! i) / b * 100"
    by blast
  have l': "length rows = 10" using l by (simp add: twenty_five_length)
  have b': "b = 10" using b by (simp only: twenty_five_bound)
  have n': "map label_text rows = [''v1'', ''v2'', ''v3'', ''v4'', ''v5'', ''v6'', ''v7'', ''v8'', ''v9'', ''v10'']"
    unfolding n twenty_five_top by (simp add: venue_numbered_def digits.simps digit_char_def)
  have "twenty_five ! 9 = venue_numbered 10"
    by (simp add: twenty_five_def)
  then have w': "target_width (rows ! 9) = 100"
    using w l' b' by (simp add: venue_numbered_def)
  have m': "maxVal Visit_count twenty_five = Some 10" using m b' by simp
  show ?thesis
    by (intro conjI exI) (fact twenty_five_length twenty_five_max r c l' n' m' w')+
qed

section \<open>The calendar heatmap\<close>

lemma getDay_less: "getDay d < 7"
  by (simp add: getDay_def Let_def nat_less_iff)

lemma dayOfWeek_eq:
  assumes "new_Date (date first @ ''T00:00:00'') = Some d"
  shows "dayOfWeek first = (getDay d + 6) mod 7"
proof -
  have "getDay d < 7" by (rule getDay_less)
  then have "(if getDay d = 0 then 6 else getDay d - 1) = (getDay d + 6) mod 7"
    by (cases "getDay d = 0") (simp_all add: mod_if)
  then show ?thesis using assms by (simp add: dayOfWeek_def)
qed

lemma month_block_of_nonempty:
  "days cal \<noteq> [] \<Longrightarrow> month_block_of bound cal = Inr (block_of bound cal)"
  by (cases "days cal") (simp_all add: month_block_of_def block_of_def)

lemma month_blocks_nonempty:
  "\<forall>cal \<in> set cals. days cal \<noteq> [] \<Longrightarrow> month_blocks bound cals = Inr (map (block_of bound) cals)"
  by (induction cals) (simp_all add: month_block_of_nonempty)

lemma takeWhile_blank:
  "takeWhile (\<lambda>c. c = Empty_cell) (replicate n Empty_cell @ map (day_cell bound) ds) = replicate n Empty_cell"
proof -
  have "\<forall>c \<in> set (map (day_cell bound) ds). c \<noteq> Empty_cell"
    by (simp add: day_cell_def)
  then have "takeWhile (\<lambda>c. c = Empty_cell) (map (day_cell bound) ds) = []"
    by (cases ds) simp_all
  then show ?thesis
    by (induction n) simp_all
qed

lemma set_children_lookup:
  "getElementById pg i = Some el \<Longrightarrow>
   getElementById (set_children i cs pg) i = Some (el\<lparr>children := cs\<rparr>)"
  by (simp add: getElementById_def set_children_def)

text \<open>
  C6. On a page with the calendar's container and months that have days, the renderer
  returns, with one block for each month. A month whose first day parses to a date with
  \<open>getDay() = g\<close> (0 for Sunday) gets a grid of exactly \<open>(g + 6) mod 7\<close> blank cells
  followed by its day cells in order; a month that starts on a Wednesday (\<open>g = 3\<close>) gets
  two blank cells and then the cell of its first day.
\<close>

theorem calendar_leading_blanks:
  assumes "getElementById pg ''calendar-dual'' = Some el"
    and "\<forall>cal \<in> set calendars. days cal \<noteq> []"
  shows "\<exists>pg' blks.
           renderCalendars calendars pg = Inr pg' \<and>
           map_option children (getElementById pg' ''calendar-dual'') = Some (map Calendar_month blks) \<and>
           length blks = length calendars \<and>
           (\<forall>i < length calendars. \<forall>first rest d.
              days (calendars ! i) = first # rest \<longrightarrow>
              new_Date (date first @ ''T00:00:00'') = Some d \<longrightarrow>
                grid (blks ! i) =
                  replicate ((getDay d + 6) mod 7) Empty_cell @
                  map (day_cell (maxMin calendars)) (first # rest) \<and>
                length (takeWhile (\<lambda>c. c = Empty_cell) (grid (blks ! i))) = (getDay d + 6) mod 7 \<and>
                (getDay d = 3 \<longrightarrow>
                   take 3 (grid (blks ! i)) =
                     [Empty_cell, Empty_cell, day_cell (maxMin calendars) first]))"
proof -
  let ?b = "maxMin calendars"
  let ?blks = "map (block_of ?b) calendars"
  let ?pg' = "set_children ''calendar-dual'' (map Calendar_month ?blks) pg"
  have mb: "month_blocks ?b calendars = Inr ?blks"
    using assms(2) by (rule month_blocks_nonempty)
  have r: "renderCalendars calendars pg = Inr ?pg'"
    using assms(1) by (simp add: renderCalendars_def mb)
  have c: "map_option children (getElementById ?pg' ''calendar-dual'') = Some (map Calendar_month ?blks)"
    using set_children_lookup [OF assms(1)] by simp
  have l: "length ?blks = length calendars" by simp
  have g: "\<forall>i < length calendars. \<forall>first rest d.
              days (calendars ! i) = first # rest \<longrightarrow>
              new_Date (date first @ ''T00:00:00'') = Some d \<longrightarrow>
                grid (?blks ! i) =
                  replicate ((getDay d + 6) mod 7) Empty_cell @ map (day_cell ?b) (first # rest) \<and>
                length (takeWhile (\<lambda>c. c = Empty_cell) (grid (?blks ! i))) = (getDay d + 6) mod 7 \<and>
                (getDay d = 3 \<longrightarrow>
                   take 3 (grid (?blks ! i)) = [Empty_cell, Empty_cell, day_cell ?b first])"
  proof (intro allI impI)
    fix i first rest d
    assume i: "i < length calendars"
      and ds: "days (calendars ! i) = first # rest"
      and nd: "new_Date (date first @ ''T00:00:00'') = Some d"
    have off: "dayOfWeek first = (getDay d + 6) mod 7"
      using nd by (rule dayOfWeek_eq)
    have gr: "grid (?blks ! i) =
                replicate ((getDay d + 6) mod 7) Empty_cell @ map (day_cell ?b) (first # rest)"
      using i ds off by (simp add: block_of_def)
    have tw: "length (takeWhile (\<lambda>c. c = Empty_cell) (grid (?blks ! i))) = (getDay d + 6) mod 7"
      unfolding gr takeWhile_blank by simp
    have wed: "take 3 (grid (?blks ! i)) = [Empty_cell, Empty_cell, day_cell ?b first]"
      if "getDay d = 3"
    proof -
      have "(getDay d + 6) mod 7 = Suc (Suc 0)" using that by simp
      then show ?thesis unfolding gr by simp
    qed
    from gr tw wed
    show "grid (?blks ! i) =
            replicate ((getDay d + 6) mod 7) Empty_cell @ map (day_cell ?b) (first # rest) \<and>
          length (takeWhile (\<lambda>c. c = Empty_cell) (grid (?blks ! i))) = (getDay d + 6) mod 7 \<and>
          (getDay d = 3 \<longrightarrow> take 3 (grid (?blks ! i)) = [Empty_cell, Empty_cell, day_cell ?b first])"
      by blast
  qed
  from r c l g show ?thesis by blast
qed

lemmas date_eval = new_Date_def parse_digits.simps digit_value_def days_in_month_def leap_year_def Let_def

lemma calendar_page_has: "getElementById calendar_page ''calendar-dual'' = Some blank"
  by (simp add: getElementById_def calendar_page_def)

lemma new_year_date: "new_Date (date new_year @ ''T00:00:00'') = Some (Date_value 2025 1 1)"
  by (simp add: new_year_def date_eval)

lemma new_year_wednesday: "getDay (Date_value 2025 1 1) = 3"
  by (simp add: getDay_def)

theorem calendar_leading_blanks_witness:
  "getElementById calendar_page ''calendar-dual'' = Some blank \<and>
   new_Date (date new_year @ ''T00:00:00'') = Some (Date_value 2025 1 1) \<and>
   getDay (Date_value 2025 1 1) = 3 \<and>
   (\<exists>pg' blks.
      renderCalendars [january] calendar_page = Inr pg' \<and>
      map_option children (getElementById pg' ''calendar-dual'') = Some (map Calendar_month blks) \<and>
      length (takeWhile (\<lambda>c. c = Empty_cell) (grid (blks ! 0))) = 2 \<and>
      take 3 (grid (blks ! 0)) = [Empty_cell, Empty_cell, day_cell (maxMin [january]) new_year])"
proof -
  have ne: "\<forall>cal \<in> set [january]. days cal \<noteq> []"
    by (simp add: january_def)
  from calendar_leading_blanks [OF calendar_page_has ne]
  obtain pg' blks where
    r: "renderCalendars [january] calendar_page = Inr pg'"
    and c: "map_option children (getElementById pg' ''calendar-dual'') = Some (map Calendar_month blks)"
    and g: "\<forall>i < length [january]. \<forall>first rest d.
              days ([january] ! i) = first # rest \<longrightarrow>
              new_Date (date first @ ''T00:00:00'') = Some d \<longrightarrow>
                grid (blks ! i) =
                  replicate ((getDay d + 6) mod 7) Empty_cell @
                  map (day_cell (maxMin [january])) (first # rest) \<and>
                length (takeWhile (\<lambda>c. c = Empty_cell) (grid (blks ! i))) = (getDay d + 6) mod 7 \<and>
                (getDay d = 3 \<longrightarrow>
                   take 3 (grid (blks ! i)) =
                     [Empty_cell, Empty_cell, day_cell (maxMin [january]) first])"
    by blast
  have d: "days ([january] ! 0) = new_year # tl (days january)"
    by (simp add: january_def)
  from g have
    "length (takeWhile (\<lambda>c. c = Empty_cell) (grid (blks ! 0))) = (getDay (Date_value 2025 1 1) + 6) mod 7 \<and>
     (getDay (Date_value 2025 1 1) = 3 \<longrightarrow>
        take 3 (grid (blks ! 0)) = [Empty_cell, Empty_cell, day_cell (maxMin [january]) new_year])"
    using d new_year_date by fastforce
  then have t: "length (takeWhile (\<lambda>c. c = Empty_cell) (grid (blks ! 0))) = 2"
    and k: "take 3 (grid (blks ! 0)) = [Empty_cell, Empty_cell, day_cell (maxMin [january]) new_year]"
    unfolding new_year_wednesday by simp_all
  show ?thesis
    by (intro conjI exI) (fact calendar_page_has new_year_date new_year_wednesday r c t k)+
qed

section \<open>The venue map\<close>

lemma place_venue_skip:
  "\<not> truthy (lat v) \<or> \<not> truthy (lng v) \<Longrightarrow> place_venue pg b st v = st"
  by (cases st) (auto simp: place_venue_def)

lemma foldl_place_venue_skip:
  "\<forall>v \<in> set vs. \<not> truthy (lat v) \<or> \<not> truthy (lng v) \<Longrightarrow> foldl (place_venue pg b) st vs = st"
  by (induction vs arbitrary: st) (simp_all add: place_venue_skip)

lemma place_venue_theme:
  assumes "data_theme pg = data_theme pg'"
  shows "place_venue pg b st v = place_venue pg' b st v"
proof -
  have c: "getCategoryColor pg = getCategoryColor pg'"
    by (rule ext) (simp add: getCategoryColor_def assms)
  have d: "isDark pg = isDark pg'"
    by (simp add: isDark_def assms)
  show ?thesis unfolding place_venue_def c d ..
qed

lemma renderVenueMap_returns: "\<exists>pg'. renderVenueMap pg = Inr pg'"
  by (simp add: renderVenueMap_def Let_def split: option.splits prod.splits)

text \<open>
  C7. When no venue of the data has valid coordinates (the collection may be empty or
  missing), the renderer returns without a fault, and the map it leaves, if it built
  one, has no marker and was not fitted to any bounds.
\<close>

theorem venue_map_without_coordinates:
  assumes "\<forall>bd vs. brewData pg = Some bd \<longrightarrow> all_venues bd = Some vs \<longrightarrow>
             (\<forall>v \<in> set vs. \<not> truthy (lat v) \<or> \<not> truthy (lng v))"
  shows "\<exists>pg'. renderVenueMap pg = Inr pg' \<and>
           (\<forall>m. venueMapInstance pg' = Some m \<longrightarrow> markers m = [] \<and> fitted m = None)"
proof -
  let ?pg = "case venueMapInstance pg of Some m \<Rightarrow> pg\<lparr>venueMapInstance := None\<rparr> | None \<Rightarrow> pg"
  have inst: "venueMapInstance ?pg = None"
    by (simp split: option.splits)
  have data: "brewData ?pg = brewData pg"
    by (simp split: option.splits)
  have skip: "foldl (place_venue ?pg (maxVisits vs)) ([], []) vs = ([], [])"
    if "brewData pg = Some bd" and "all_venues bd = Some vs" for bd vs
    using assms that by (intro foldl_place_venue_skip) blast
  show ?thesis
    unfolding renderVenueMap_def Let_def
    using inst data skip by (auto split: option.splits)
qed

lemma place_venue_zero:
  assumes "lat v = Some 0 \<or> lng v = Some 0"
  shows "place_venue pg b st v = st"
  using assms by (intro place_venue_skip) auto

lemma place_venue_variables:
  "place_venue (pg\<lparr>brewData := x\<rparr>) = place_venue pg"
  "place_venue (pg\<lparr>venueMapInstance := y\<rparr>) = place_venue pg"
  by (intro ext place_venue_theme, simp)+

lemma getTileUrl_variables:
  "getTileUrl (pg\<lparr>brewData := x\<rparr>) = getTileUrl pg"
  "getTileUrl (pg\<lparr>venueMapInstance := y\<rparr>) = getTileUrl pg"
  by (simp_all add: getTileUrl_def isDark_def)

lemma getElementById_variables:
  "getElementById (pg\<lparr>brewData := x\<rparr>) i = getElementById pg i"
  "getElementById (pg\<lparr>venueMapInstance := y\<rparr>) i = getElementById pg i"
  by (simp_all add: getElementById_def)

lemma venue_fold_drop:
  "\<not> truthy (lat v) \<or> \<not> truthy (lng v) \<Longrightarrow>
   foldl (place_venue pg b) st (vs1 @ v # vs2) = foldl (place_venue pg b) st (vs1 @ vs2)"
  by (simp add: place_venue_skip)

lemma maxVisits_coordinates:
  "maxVisits (vs1 @ v\<lparr>lat := a, lng := b\<rparr> # vs2) = maxVisits (vs1 @ v # vs2)"
  by (simp add: maxVisits_def)

text \<open>
  C9. A venue whose latitude or longitude is the number 0 fails the truthiness test like
  a venue without coordinates: its turn of the loop adds no marker and no bounds entry,
  the loop over a sequence that contains it gives what the loop over the sequence without
  it gives, and the rendered map is the one rendered when its coordinates are missing.
\<close>

theorem zero_coordinate_venue_skipped:
  assumes "lat v = Some 0 \<or> lng v = Some 0"
  shows "place_venue pg b st v = st \<and>
         foldl (place_venue pg b) st (vs1 @ v # vs2) = foldl (place_venue pg b) st (vs1 @ vs2) \<and>
         (brewData pg = Some bd \<longrightarrow> all_venues bd = Some (vs1 @ v # vs2) \<longrightarrow>
            map_sum id venueMapInstance (renderVenueMap pg) =
            map_sum id venueMapInstance
              (renderVenueMap
                 (pg\<lparr>brewData := Some (bd\<lparr>all_venues := Some (vs1 @ v\<lparr>lat := None, lng := None\<rparr> # vs2)\<rparr>)\<rparr>)))"
proof (intro conjI impI)
  let ?v' = "v\<lparr>lat := None, lng := None\<rparr>"
  have falsy: "\<not> truthy (lat v) \<or> \<not> truthy (lng v)"
    using assms by auto
  have missing: "\<not> truthy (lat ?v') \<or> \<not> truthy (lng ?v')"
    by simp
  show "place_venue pg b st v = st"
    using falsy by (rule place_venue_skip)
  show "foldl (place_venue pg b) st (vs1 @ v # vs2) = foldl (place_venue pg b) st (vs1 @ vs2)"
    using falsy by (rule venue_fold_drop)
  assume bd: "brewData pg = Some bd" and vs: "all_venues bd = Some (vs1 @ v # vs2)"
  have same: "foldl (place_venue p m) s (vs1 @ ?v' # vs2) = foldl (place_venue p m) s (vs1 @ v # vs2)"
    for p m s
    unfolding venue_fold_drop [OF falsy] venue_fold_drop [OF missing] ..
  show "map_sum id venueMapInstance (renderVenueMap pg) =
        map_sum id venueMapInstance
          (renderVenueMap (pg\<lparr>brewData := Some (bd\<lparr>all_venues := Some (vs1 @ ?v' # vs2)\<rparr>)\<rparr>))"
    unfolding renderVenueMap_def Let_def
    by (cases "venueMapInstance pg")
       (simp_all add: bd vs same maxVisits_coordinates place_venue_variables getTileUrl_variables
          getElementById_variables del: foldl_append foldl_Cons split: option.splits prod.splits)
qed

lemmas venue_map_eval =
  renderVenueMap_def venue_page_with_def getElementById_def maxVisits_def math_max_def
  place_venue_def denver_def equator_def nowhere_def getTileUrl_def isDark_def getCategoryColor_def
  CATEGORY_COLORS_def div_num_def Let_def

theorem venue_map_without_coordinates_witness:
  "\<exists>pg' m. renderVenueMap (venue_page_with [nowhere, equator]) = Inr pg' \<and>
      venueMapInstance pg' = Some m \<and> markers m = [] \<and> fitted m = None"
proof -
  let ?pg = "venue_page_with [nowhere, equator]"
  have h: "\<forall>bd vs. brewData ?pg = Some bd \<longrightarrow> all_venues bd = Some vs \<longrightarrow>
             (\<forall>v \<in> set vs. \<not> truthy (lat v) \<or> \<not> truthy (lng v))"
    by (auto simp: venue_page_with_def nowhere_def equator_def)
  from venue_map_without_coordinates [OF h]
  obtain pg' where r: "renderVenueMap ?pg = Inr pg'"
    and m: "\<forall>m. venueMapInstance pg' = Some m \<longrightarrow> markers m = [] \<and> fitted m = None"
    by blast
  have "\<exists>m. venueMapInstance pg' = Some m"
    using r by (auto simp: venue_map_eval)
  with r m show ?thesis by blast
qed

theorem zero_coordinate_venue_skipped_witness:
  "lat equator = Some 0 \<and>
   place_venue (venue_page_with [denver, equator]) (Some 4) ([], []) equator = ([], []) \<and>
   (\<exists>pg' m. renderVenueMap (venue_page_with [denver, equator]) = Inr pg' \<and>
      venueMapInstance pg' = Some m \<and>
      map latlng (markers m) = [(397 / 10, - 105)] \<and>
      fitted m = Some [(397 / 10, - 105)])"
proof -
  have z: "lat equator = Some 0 \<or> lng equator = Some 0"
    by (simp add: equator_def)
  from zero_coordinate_venue_skipped [OF z, of "venue_page_with [denver, equator]" "Some 4" "([], [])"]
  have p: "place_venue (venue_page_with [denver, equator]) (Some 4) ([], []) equator = ([], [])"
    by blast
  have l: "lat equator = Some 0"
    by (simp add: equator_def)
  have e: "\<exists>pg' m. renderVenueMap (venue_page_with [denver, equator]) = Inr pg' \<and>
      venueMapInstance pg' = Some m \<and>
      map latlng (markers m) = [(397 / 10, - 105)] \<and>
      fitted m = Some [(397 / 10, - 105)]"
    by (simp add: venue_map_eval)
  from l p e show ?thesis by blast
qed

section \<open>The goal tracker\<close>

lemma ease_range:
  assumes "0 \<le> elapsed"
  shows "0 \<le> ease elapsed" and "ease elapsed \<le> 1"
proof -
  let ?p = "min (elapsed / 1200) 1"
  have p: "0 \<le> ?p" "?p \<le> 1" using assms by simp_all
  then have q: "0 \<le> 1 - ?p" "1 - ?p \<le> 1" by linarith+
  then have "0 \<le> (1 - ?p) ^ 3" and "(1 - ?p) ^ 3 \<le> 1"
    by (simp_all add: power_le_one)
  then show "0 \<le> ease elapsed" and "ease elapsed \<le> 1"
    unfolding ease_def by linarith+
qed

lemma ease_settled: "1200 \<le> elapsed \<Longrightarrow> ease elapsed = 1"
  by (simp add: ease_def min_def)

lemma pct_le: "pct s \<le> 100"
  by (simp add: pct_def progress_def)

lemma remaining_ge: "0 \<le> remaining s"
  by (simp add: remaining_def)

lemma scaled_le:
  assumes "t \<le> (100::real)" and "0 \<le> e" and "e \<le> 1"
  shows "t * e \<le> 100"
proof (cases "0 \<le> t")
  case True
  then have "t * e \<le> t * 1" using assms by (intro mult_left_mono) simp_all
  then show ?thesis using assms by simp
next
  case False
  then have "t * e \<le> 0" using assms by (simp add: mult_le_0_iff)
  then show ?thesis by simp
qed

lemma toFixed_n_le:
  assumes "0 \<le> x" and "x \<le> 100"
  shows "toFixed_n x 1 \<le> 1000"
proof -
  have "\<bar>x\<bar> * 10 ^ 1 + 1 / 2 < 1001" using assms by simp
  then have "\<lfloor>\<bar>x\<bar> * 10 ^ 1 + 1 / 2\<rfloor> \<le> 1000" by (simp add: floor_le_iff)
  then have "nat \<lfloor>\<bar>x\<bar> * 10 ^ 1 + 1 / 2\<rfloor> \<le> 1000" by linarith
  then show ?thesis unfolding toFixed_n_def .
qed

lemma digit_char_not_minus: "digit_char d \<noteq> CHR ''-''"
proof -
  have "d mod 10 < length ''0123456789''" by simp
  then have "''0123456789'' ! (d mod 10) \<in> set ''0123456789''" by (rule nth_mem)
  moreover have "CHR ''-'' \<notin> set ''0123456789''" by simp
  ultimately show ?thesis unfolding digit_char_def by metis
qed

lemma digits_nonempty: "digits n \<noteq> []"
  by (subst digits.simps) simp

lemma hd_digits_not_minus: "hd (digits n) \<noteq> CHR ''-''"
proof (induction n rule: digits.induct)
  case (1 n)
  show ?case
  proof (cases "n < 10")
    case True
    then show ?thesis by (subst digits.simps) (simp add: digit_char_not_minus)
  next
    case False
    then have "hd (digits n) = hd (digits (n div 10))"
      by (subst digits.simps) (simp add: digits_nonempty)
    then show ?thesis using 1 False by simp
  qed
qed

lemma hd_padStart_not_minus: "hd (padStart k (CHR ''0'') (digits n)) \<noteq> CHR ''-''"
proof (cases "k - length (digits n)")
  case 0
  then show ?thesis by (simp add: padStart_def hd_digits_not_minus)
next
  case (Suc m)
  then show ?thesis by (simp add: padStart_def)
qed

lemma length_padStart: "k \<le> length (padStart k c s)"
  by (simp add: padStart_def)

lemma toFixed_unsigned:
  assumes "0 \<le> x"
  shows "hd (toFixed x f) \<noteq> CHR ''-''"
proof -
  let ?m = "padStart (f + 1) (CHR ''0'') (digits (toFixed_n x f))"
  have len: "f + 1 \<le> length ?m" by (rule length_padStart)
  then have ne: "take (length ?m - f) ?m \<noteq> []" by auto
  have h: "hd ?m \<noteq> CHR ''-''" by (rule hd_padStart_not_minus)
  have eq: "hd (take (length ?m - f) ?m @ ''.'' @ drop (length ?m - f) ?m) = hd ?m"
    using ne len by (cases ?m) (auto simp: take_Cons')
  have "hd (if f = 0 then ?m else take (length ?m - f) ?m @ ''.'' @ drop (length ?m - f) ?m) \<noteq> CHR ''-''"
  proof (cases "f = 0")
    case True
    then show ?thesis using h by simp
  next
    case False
    then show ?thesis using h eq by auto
  qed
  then show ?thesis
    using assms unfolding toFixed_def Let_def by simp
qed

lemma goal_counters_cases:
  assumes "c \<in> set (goal_counters pg s)"
  shows "(counter_el c = ''goal-miles-run'' \<and> counter_target c = total_distance_mi s \<and> \<not> counter_isPct c) \<or>
         (counter_el c = ''goal-miles-left'' \<and> counter_target c = remaining s \<and> \<not> counter_isPct c) \<or>
         (counter_el c = ''goal-pct'' \<and> counter_target c = pct s \<and> counter_isPct c)"
proof -
  from assms have "c \<in> set
       [\<lparr>counter_el = ''goal-miles-run'', counter_target = total_distance_mi s,
          counter_decimals = 1, counter_isPct = False\<rparr>,
        \<lparr>counter_el = ''goal-miles-left'', counter_target = remaining s,
          counter_decimals = 1, counter_isPct = False\<rparr>,
        \<lparr>counter_el = ''goal-pct'', counter_target = pct s,
          counter_decimals = 1, counter_isPct = True\<rparr>]"
    unfolding goal_counters_def by (rule subsetD [OF filter_is_subset])
  then show ?thesis by auto
qed

text \<open>
  C10. For every total distance, the progress is \<open>min(total / 1000, 1)\<close> and the remaining
  miles are \<open>max(1000 - total, 0)\<close>; the percentage is at most 100 and the remaining miles
  are not negative, and a total beyond 1000 gives exactly 100 and 0. On a page with the
  tracker's elements these are the values the renderer hands to the fill, the runner and
  the counters. In every frame of the animation (elapsed time not negative) the
  percentage counter's number is at most 100, so that its text reads at most \<open>100.0\<close>, and
  the remaining-miles counter's number is not negative and its text has no minus sign.
\<close>

theorem goal_tracker_clamped:
  "progress s = min (total_distance_mi s / 1000) 1 \<and>
   remaining s = max (1000 - total_distance_mi s) 0 \<and>
   pct s \<le> 100 \<and> 0 \<le> remaining s \<and>
   (1000 < total_distance_mi s \<longrightarrow> pct s = 100 \<and> remaining s = 0) \<and>
   (getElementById pg ''goal-fill'' \<noteq> None \<longrightarrow> getElementById pg ''goal-runner'' \<noteq> None \<longrightarrow>
    querySelector pg ''.goal-tracker'' \<noteq> None \<longrightarrow>
      renderGoalTracker s pg =
        Inr (observe ''.goal-tracker'' (2 / 10)
               (Goal_animation (pct s) (pct s) (goal_counters pg s)) pg)) \<and>
   (\<forall>c \<in> set (goal_counters pg s). \<forall>elapsed \<ge> 0.
      (counter_el c = ''goal-pct'' \<longrightarrow>
         counter_target c = pct s \<and> frame_value c elapsed \<le> 100 \<and>
         (frame_value c elapsed < 0 \<or> toFixed_n (frame_value c elapsed) 1 \<le> 1000)) \<and>
      (counter_el c = ''goal-miles-left'' \<longrightarrow>
         counter_target c = remaining s \<and> 0 \<le> frame_value c elapsed \<and>
         hd (tick c elapsed) \<noteq> CHR ''-''))"
proof (intro conjI)
  show "progress s = min (total_distance_mi s / 1000) 1"
    by (simp add: progress_def goal_def)
  show "remaining s = max (1000 - total_distance_mi s) 0"
    by (simp add: remaining_def goal_def)
  show "pct s \<le> 100" by (rule pct_le)
  show "0 \<le> remaining s" by (rule remaining_ge)
  show "1000 < total_distance_mi s \<longrightarrow> pct s = 100 \<and> remaining s = 0"
    by (simp add: pct_def progress_def remaining_def goal_def)
  show "getElementById pg ''goal-fill'' \<noteq> None \<longrightarrow> getElementById pg ''goal-runner'' \<noteq> None \<longrightarrow>
        querySelector pg ''.goal-tracker'' \<noteq> None \<longrightarrow>
          renderGoalTracker s pg =
            Inr (observe ''.goal-tracker'' (2 / 10)
                   (Goal_animation (pct s) (pct s) (goal_counters pg s)) pg)"
    by (auto simp: renderGoalTracker_def)
  show "\<forall>c \<in> set (goal_counters pg s). \<forall>elapsed \<ge> 0.
      (counter_el c = ''goal-pct'' \<longrightarrow>
         counter_target c = pct s \<and> frame_value c elapsed \<le> 100 \<and>
         (frame_value c elapsed < 0 \<or> toFixed_n (frame_value c elapsed) 1 \<le> 1000)) \<and>
      (counter_el c = ''goal-miles-left'' \<longrightarrow>
         counter_target c = remaining s \<and> 0 \<le> frame_value c elapsed \<and>
         hd (tick c elapsed) \<noteq> CHR ''-'')"
  proof (intro ballI allI impI conjI)
    fix c elapsed
    assume c: "c \<in> set (goal_counters pg s)" and e: "(0::real) \<le> elapsed"
    note er = ease_range [OF e]
    {
      assume "counter_el c = ''goal-pct''"
      with goal_counters_cases [OF c] show t: "counter_target c = pct s"
        by auto
      show le: "frame_value c elapsed \<le> 100"
        unfolding frame_value_def t using pct_le er by (rule scaled_le)
      show "frame_value c elapsed < 0 \<or> toFixed_n (frame_value c elapsed) 1 \<le> 1000"
        using le toFixed_n_le [of "frame_value c elapsed"] by linarith
    }
    {
      assume el: "counter_el c = ''goal-miles-left''"
      with goal_counters_cases [OF c] show t: "counter_target c = remaining s"
        by auto
      show ge: "0 \<le> frame_value c elapsed"
        unfolding frame_value_def t using remaining_ge er(1) by (rule mult_nonneg_nonneg)
      from goal_counters_cases [OF c] el have "\<not> counter_isPct c"
        by auto
      then show "hd (tick c elapsed) \<noteq> CHR ''-''"
        using toFixed_unsigned [OF ge] by (simp add: tick_def)
    }
  qed
qed

lemmas tick_eval =
  tick_def frame_value_def ease_def power3_eq_cube toFixed_def toFixed_n_def padStart_def
  digits.simps digit_char_def Let_def

lemma goal_page_has:
  "getElementById goal_page ''goal-fill'' \<noteq> None"
  "getElementById goal_page ''goal-runner'' \<noteq> None"
  "querySelector goal_page ''.goal-tracker'' \<noteq> None"
  by (simp_all add: goal_page_def getElementById_def querySelector_def)

lemma goal_counters_over_goal:
  "goal_counters goal_page over_goal =
     [\<lparr>counter_el = ''goal-miles-run'', counter_target = 1500, counter_decimals = 1,
        counter_isPct = False\<rparr>, left_counter, pct_counter]"
  by (simp add: goal_counters_def goal_page_def getElementById_def over_goal_def remaining_def
      pct_def progress_def goal_def left_counter_def pct_counter_def)

theorem goal_tracker_clamped_witness:
  "(1000::real) < total_distance_mi over_goal \<and> pct over_goal = 100 \<and> remaining over_goal = 0 \<and>
   renderGoalTracker over_goal goal_page =
     Inr (observe ''.goal-tracker'' (2 / 10)
            (Goal_animation 100 100
               [\<lparr>counter_el = ''goal-miles-run'', counter_target = 1500, counter_decimals = 1,
                  counter_isPct = False\<rparr>, left_counter, pct_counter]) goal_page) \<and>
   tick pct_counter 600 = ''87.5%'' \<and> tick pct_counter 1200 = ''100.0%'' \<and>
   tick left_counter 1200 = ''0.0''"
proof -
  have over: "(1000::real) < total_distance_mi over_goal"
    by (simp add: over_goal_def)
  note th = goal_tracker_clamped [of over_goal goal_page]
  from th over have p: "pct over_goal = 100" and r: "remaining over_goal = 0"
    by blast+
  from th goal_page_has have
    "renderGoalTracker over_goal goal_page =
       Inr (observe ''.goal-tracker'' (2 / 10)
              (Goal_animation (pct over_goal) (pct over_goal) (goal_counters goal_page over_goal))
              goal_page)"
    by blast
  then have g: "renderGoalTracker over_goal goal_page =
     Inr (observe ''.goal-tracker'' (2 / 10)
            (Goal_animation 100 100
               [\<lparr>counter_el = ''goal-miles-run'', counter_target = 1500, counter_decimals = 1,
                  counter_isPct = False\<rparr>, left_counter, pct_counter]) goal_page)"
    unfolding p goal_counters_over_goal .
  have t1: "tick pct_counter 600 = ''87.5%''"
    by (simp add: tick_eval pct_counter_def)
  have t2: "tick pct_counter 1200 = ''100.0%''"
    by (simp add: tick_eval pct_counter_def)
  have t3: "tick left_counter 1200 = ''0.0''"
    by (simp add: tick_eval left_counter_def)
  from over p r g t1 t2 t3 show ?thesis by (intro conjI)
qed

section \<open>The regional maps\<close>

lemma pad_eq:
  assumes "xs \<noteq> []"
  shows "pad xs = Some (max ((Max (set xs) - Min (set xs)) * (2 / 10)) 4)"
proof -
  from assms obtain y ys where xs: "xs = y # ys" by (cases xs) auto
  show ?thesis
    unfolding xs pad_def math_max_Cons math_min_Cons by simp
qed

lemma pad_at_least: "pad xs = Some p \<Longrightarrow> 4 \<le> p"
  by (cases xs) (auto simp: pad_def math_max_def math_max_Cons math_min_Cons simp del: set_simps
      split: option.splits)

lemma regionBbox_eq:
  assumes "regionData \<noteq> []"
  shows "regionBbox regionData =
           Some ((Min (set (lngs regionData)) - max ((Max (set (lngs regionData)) - Min (set (lngs regionData))) * (2 / 10)) 4,
                  Min (set (lats regionData)) - max ((Max (set (lats regionData)) - Min (set (lats regionData))) * (2 / 10)) 4),
                 (Max (set (lngs regionData)) + max ((Max (set (lngs regionData)) - Min (set (lngs regionData))) * (2 / 10)) 4,
                  Max (set (lats regionData)) + max ((Max (set (lats regionData)) - Min (set (lats regionData))) * (2 / 10)) 4))"
proof -
  have l: "lngs regionData \<noteq> []" and a: "lats regionData \<noteq> []"
    using assms by (simp_all add: lngs_def lats_def)
  from l obtain x xs where lx: "lngs regionData = x # xs" by (cases "lngs regionData") auto
  from a obtain y ys where ly: "lats regionData = y # ys" by (cases "lats regionData") auto
  have ml: "math_min (lngs regionData) = Some (Min (set (lngs regionData)))"
    and xl: "math_max (lngs regionData) = Some (Max (set (lngs regionData)))"
    unfolding lx by (rule math_min_Cons, rule math_max_Cons)
  have ma: "math_min (lats regionData) = Some (Min (set (lats regionData)))"
    and xa: "math_max (lats regionData) = Some (Max (set (lats regionData)))"
    unfolding ly by (rule math_min_Cons, rule math_max_Cons)
  show ?thesis
    unfolding regionBbox_def ml xl ma xa pad_eq [OF l] pad_eq [OF a] by simp
qed

text \<open>
  C5. For a non-empty regional subset, on a page with the map's container and the featured
  data loaded, the renderer fits the projection to the box of the entries' longitudes and
  latitudes widened on each side, in each axis, by \<open>max(span * 0.2, 4)\<close> degrees. The
  padding is never below 4, and for a longitude span of 1 degree it is 4, not 0.2.
\<close>

theorem region_padding:
  assumes "regionData \<noteq> []"
    and "getElementById pg elementId = Some mapEl"
    and "featuredData pg = Some fd"
  shows "\<exists>padLng padLat pg' svg before after.
           pad (lngs regionData) = Some padLng \<and> pad (lats regionData) = Some padLat \<and>
           padLng = max ((Max (set (lngs regionData)) - Min (set (lngs regionData))) * (2 / 10)) 4 \<and>
           padLat = max ((Max (set (lats regionData)) - Min (set (lats regionData))) * (2 / 10)) 4 \<and>
           4 \<le> padLng \<and> 4 \<le> padLat \<and>
           (Max (set (lngs regionData)) - Min (set (lngs regionData)) = 1 \<longrightarrow> padLng = 4) \<and>
           renderRegionMap fitSize elementId regionData pg = Inr pg' \<and>
           map_option children (getElementById pg' elementId) = Some (before @ Region_svg svg # after) \<and>
           fit_extent svg =
             ((Min (set (lngs regionData)) - padLng, Min (set (lats regionData)) - padLat),
              (Max (set (lngs regionData)) + padLng, Max (set (lats regionData)) + padLat))"
proof -
  let ?L = "lngs regionData" and ?A = "lats regionData"
  let ?pl = "max ((Max (set ?L) - Min (set ?L)) * (2 / 10)) 4"
  let ?pa = "max ((Max (set ?A) - Min (set ?A)) * (2 / 10)) 4"
  let ?bbox = "((Min (set ?L) - ?pl, Min (set ?A) - ?pa), (Max (set ?L) + ?pl, Max (set ?A) + ?pa))"
  have l: "?L \<noteq> []" and a: "?A \<noteq> []"
    using assms(1) by (simp_all add: lngs_def lats_def)
  have pl: "pad ?L = Some ?pl" using l by (rule pad_eq)
  have pa: "pad ?A = Some ?pa" using a by (rule pad_eq)
  have bb: "regionBbox regionData = Some ?bbox"
    using assms(1) by (rule regionBbox_eq)
  have one: "Max (set ?L) - Min (set ?L) = 1 \<longrightarrow> ?pl = 4"
    by simp
  have len: "length regionData \<noteq> 0" using assms(1) by simp
  obtain pg' svg before after where
    r: "renderRegionMap fitSize elementId regionData pg = Inr pg'"
    and c: "map_option children (getElementById pg' elementId) = Some (before @ Region_svg svg # after)"
    and f: "fit_extent svg = ?bbox"
  proof -
    let ?kept = "filter (\<lambda>c. case c of Region_svg _ \<Rightarrow> False | Region_tooltip _ _ \<Rightarrow> False | _ \<Rightarrow> True)
                   (children mapEl)"
    let ?w = "if rect_width mapEl \<noteq> 0 then rect_width mapEl else clientWidth mapEl"
    let ?h = "if rect_height mapEl \<noteq> 0 then rect_height mapEl else clientHeight mapEl"
    let ?svg = "\<lparr>svg_width = ?w, svg_height = ?h, fit_extent = ?bbox,
                  ocean_fill = (if isDark pg then ''#0d0d18'' else ''#e8ecf2''),
                  land_drawn = worldTopoData pg,
                  region_markers =
                    concat (map (region_marker_of (isDark pg) fd (fitSize (?w, ?h) ?bbox) ?w ?h)
                              regionData)\<rparr>"
    let ?tip = "Region_tooltip
                  (if isDark pg then ''rgba(18, 18, 26, 0.95)'' else ''rgba(255, 255, 255, 0.95)'')
                  (if isDark pg then ''#e0e0e0'' else ''#1a1a2e'')"
    let ?pg' = "set_children elementId (?kept @ [Region_svg ?svg, ?tip]) pg"
    have "renderRegionMap fitSize elementId regionData pg = Inr ?pg'"
      unfolding renderRegionMap_def Let_def using assms(2,3) len by (simp add: bb)
    moreover have "map_option children (getElementById ?pg' elementId) = Some (?kept @ Region_svg ?svg # [?tip])"
      using set_children_lookup [OF assms(2)] by simp
    moreover have "fit_extent ?svg = ?bbox" by simp
    ultimately show ?thesis using that by blast
  qed
  have g4: "4 \<le> ?pl" "4 \<le> ?pa" by simp_all
  from pl pa g4 one r c f show ?thesis by blast
qed

lemma region_page_has:
  "getElementById region_page ''featured-map-na'' = Some (blank\<lparr>rect_width := 400, rect_height := 300\<rparr>)"
  by (simp add: region_page_def getElementById_def)

lemma region_page_data: "featuredData region_page = Some [west, east]"
  by (simp add: region_page_def)

lemma west_east_extrema:
  "Max (set (lngs [west, east])) = - 104" "Min (set (lngs [west, east])) = - 105"
  "Max (set (lats [west, east])) = 40" "Min (set (lats [west, east])) = 397 / 10"
  by (simp_all add: lngs_def lats_def west_def east_def)

theorem region_padding_witness:
  "Max (set (lngs [west, east])) - Min (set (lngs [west, east])) = 1 \<and>
   pad (lngs [west, east]) = Some 4 \<and>
   (\<exists>pg' svg before after.
      renderRegionMap (\<lambda>size box point. None) ''featured-map-na'' [west, east] region_page = Inr pg' \<and>
      map_option children (getElementById pg' ''featured-map-na'') = Some (before @ Region_svg svg # after) \<and>
      fit_extent svg = ((- 109, 357 / 10), (- 100, 44)))"
proof -
  have ne: "[west, east] \<noteq> []" by simp
  from region_padding [OF ne region_page_has region_page_data, of "\<lambda>size box point. None"]
  obtain padLng padLat pg' svg before after where
    pl: "pad (lngs [west, east]) = Some padLng"
    and vl: "padLng = max ((Max (set (lngs [west, east])) - Min (set (lngs [west, east]))) * (2 / 10)) 4"
    and va: "padLat = max ((Max (set (lats [west, east])) - Min (set (lats [west, east]))) * (2 / 10)) 4"
    and r: "renderRegionMap (\<lambda>size box point. None) ''featured-map-na'' [west, east] region_page = Inr pg'"
    and c: "map_option children (getElementById pg' ''featured-map-na'') = Some (before @ Region_svg svg # after)"
    and f: "fit_extent svg =
             ((Min (set (lngs [west, east])) - padLng, Min (set (lats [west, east])) - padLat),
              (Max (set (lngs [west, east])) + padLng, Max (set (lats [west, east])) + padLat))"
    by blast
  have span: "Max (set (lngs [west, east])) - Min (set (lngs [west, east])) = 1"
    unfolding west_east_extrema by simp
  have vl': "padLng = 4" unfolding vl west_east_extrema by simp
  have va': "padLat = 4" unfolding va west_east_extrema by simp
  have pl': "pad (lngs [west, east]) = Some 4" using pl vl' by simp
  have f': "fit_extent svg = ((- 109, 357 / 10), (- 100, 44))"
    unfolding f vl' va' west_east_extrema by simp
  show ?thesis
    by (intro conjI exI) (fact span pl' r c f')+
qed

end
